theory Spec2Isabelle
  imports Main
begin

section \<open>Python values, exceptions and formatting\<close>

text \<open>
  The pipeline of \<^verbatim>\<open>MainGui.py\<close> works on whatever \<^verbatim>\<open>json.loads\<close> returns, so the
  analysis of a review is a JSON value and not a typed record. A JSON object is a Python
  dict, kept here as the list of its items in insertion order (keys distinct); Python's
  \<^verbatim>\<open>None\<close> is \<open>JNull\<close>. Numbers are the integers (a float behaves like a non-zero
  integer wherever the pipeline looks at one).
\<close>

datatype json =
    JNull
  | JBool bool
  | JNum int
  | JStr string
  | JArr "json list"
  | JObj "(string \<times> json) list"

text \<open>The exception classes the two programs can meet; all derive from \<^verbatim>\<open>Exception\<close>.
  \<open>DatabaseError\<close> stands for every \<^verbatim>\<open>sqlite3.Error\<close> that is not an
  \<^verbatim>\<open>OperationalError\<close>, \<open>ServiceError\<close> for whatever the API client or
  \<^verbatim>\<open>json.loads\<close> raises.\<close>

datatype exc =
    OperationalError string
  | DatabaseError string
  | ServiceError string
  | TypeError string
  | KeyError string
  | AttributeError string
  | ValueError string

text \<open>A text between apostrophes, as \<^verbatim>\<open>repr\<close> of a plain string gives it.\<close>

definition quoted :: "string \<Rightarrow> string" where
  "quoted s = CHR 0x27 # s @ [CHR 0x27]"

fun exc_str :: "exc \<Rightarrow> string" where
  "exc_str (OperationalError m) = m"
| "exc_str (DatabaseError m) = m"
| "exc_str (ServiceError m) = m"
| "exc_str (TypeError m) = m"
| "exc_str (KeyError k) = quoted k"
| "exc_str (AttributeError m) = m"
| "exc_str (ValueError m) = m"

fun is_OperationalError :: "exc \<Rightarrow> bool" where
  "is_OperationalError (OperationalError m) = True"
| "is_OperationalError e = False"

fun is_sqlite3_Error :: "exc \<Rightarrow> bool" where
  "is_sqlite3_Error (OperationalError m) = True"
| "is_sqlite3_Error (DatabaseError m) = True"
| "is_sqlite3_Error e = False"

fun type_name :: "json \<Rightarrow> string" where
  "type_name JNull = ''NoneType''"
| "type_name (JBool b) = ''bool''"
| "type_name (JNum n) = ''int''"
| "type_name (JStr s) = ''str''"
| "type_name (JArr xs) = ''list''"
| "type_name (JObj kvs) = ''dict''"

text \<open>Truth value of a Python object, as \<^verbatim>\<open>if analysis:\<close> and \<^verbatim>\<open>if not rows:\<close> test it.\<close>

fun truthy :: "json \<Rightarrow> bool" where
  "truthy JNull = False"
| "truthy (JBool b) = b"
| "truthy (JNum n) = (n \<noteq> 0)"
| "truthy (JStr s) = (s \<noteq> [])"
| "truthy (JArr xs) = (xs \<noteq> [])"
| "truthy (JObj kvs) = (kvs \<noteq> [])"

text \<open>Whether a value is a Python \<^verbatim>\<open>str\<close>.\<close>

fun is_str :: "json \<Rightarrow> bool" where
  "is_str (JStr s) = True"
| "is_str v = False"

text \<open>\<^verbatim>\<open>d.get(key, default)\<close>: only a dict has the method.\<close>

fun dict_get :: "json \<Rightarrow> string \<Rightarrow> json \<Rightarrow> exc + json" where
  "dict_get (JObj kvs) k d = Inr (case map_of kvs k of Some v \<Rightarrow> v | None \<Rightarrow> d)"
| "dict_get v k d = Inl (AttributeError (quoted (type_name v) @ '' object has no attribute '' @ quoted ''get''))"

text \<open>\<^verbatim>\<open>a[key]\<close> with a string key.\<close>

fun subscript :: "json \<Rightarrow> string \<Rightarrow> exc + json" where
  "subscript (JObj kvs) k = (case map_of kvs k of Some v \<Rightarrow> Inr v | None \<Rightarrow> Inl (KeyError k))"
| "subscript (JStr s) k = Inl (TypeError (''string indices must be integers, not '' @ quoted ''str''))"
| "subscript (JArr xs) k = Inl (TypeError ''list indices must be integers or slices, not str'')"
| "subscript v k = Inl (TypeError (quoted (type_name v) @ '' object is not subscriptable''))"

text \<open>The elements \<^verbatim>\<open>list.extend\<close> draws from its argument: a list gives its elements, a
  string its characters, a dict its keys; nothing else can be iterated.\<close>

fun py_iter :: "json \<Rightarrow> exc + json list" where
  "py_iter (JArr xs) = Inr xs"
| "py_iter (JStr s) = Inr (map (\<lambda>c. JStr [c]) s)"
| "py_iter (JObj kvs) = Inr (map (\<lambda>kv. JStr (fst kv)) kvs)"
| "py_iter v = Inl (TypeError (quoted (type_name v) @ '' object is not iterable''))"

text \<open>Decimal formatting of the integers in the f-strings.\<close>

fun show_nat :: "nat \<Rightarrow> string" where
  "show_nat n =
     (if n < 10 then [''0123456789'' ! n]
      else show_nat (n div 10) @ [''0123456789'' ! (n mod 10)])"

declare show_nat.simps [simp del]

definition show_int :: "int \<Rightarrow> string" where
  "show_int k = (if k < 0 then ''-'' @ show_nat (nat (- k)) else show_nat (nat k))"

section \<open>\<^verbatim>\<open>collections.Counter\<close>\<close>

text \<open>
  A \<^verbatim>\<open>Counter\<close> is a dict from hashable keys to counts, in order of first insertion.
  Lists and dicts are unhashable. Keys are compared with \<^verbatim>\<open>==\<close>, under which
  \<^verbatim>\<open>True == 1\<close> and \<^verbatim>\<open>False == 0\<close>.
\<close>

fun hashable :: "json \<Rightarrow> bool" where
  "hashable (JArr xs) = False"
| "hashable (JObj kvs) = False"
| "hashable v = True"

fun key_norm :: "json \<Rightarrow> json" where
  "key_norm (JBool b) = JNum (if b then 1 else 0)"
| "key_norm v = v"

definition key_eq :: "json \<Rightarrow> json \<Rightarrow> bool" where
  "key_eq a b = (key_norm a = key_norm b)"

type_synonym counter = "(json \<times> nat) list"

fun counter_add :: "counter \<Rightarrow> json \<Rightarrow> counter" where
  "counter_add [] k = [(k, 1)]"
| "counter_add ((k', c) # rest) k =
     (if key_eq k' k then (k', Suc c) # rest else (k', c) # counter_add rest k)"

fun counter_update :: "counter \<Rightarrow> json list \<Rightarrow> exc + counter" where
  "counter_update cnt [] = Inr cnt"
| "counter_update cnt (x # xs) =
     (if hashable x then counter_update (counter_add cnt x) xs
      else Inl (TypeError (''unhashable type: '' @ quoted (type_name x))))"

definition Counter :: "json list \<Rightarrow> exc + counter" where
  "Counter xs = counter_update [] xs"

text \<open>\<^verbatim>\<open>cnt[key]\<close>: a missing key counts zero.\<close>

fun counter_get :: "counter \<Rightarrow> json \<Rightarrow> nat" where
  "counter_get [] k = 0"
| "counter_get ((k', c) # rest) k = (if key_eq k' k then c else counter_get rest k)"

text \<open>\<^verbatim>\<open>sum(cnt.values())\<close>.\<close>

definition counter_total :: "counter \<Rightarrow> nat" where
  "counter_total cnt = sum_list (map snd cnt)"

text \<open>\<^verbatim>\<open>cnt.most_common(n)\<close> is \<^verbatim>\<open>heapq.nlargest(n, cnt.items(), key=count)\<close>, that is the
  first \<open>n\<close> items of a stable sort by decreasing count.\<close>

definition most_common :: "nat \<Rightarrow> counter \<Rightarrow> counter" where
  "most_common n cnt = take n (sort_key (\<lambda>kc. - int (snd kc)) cnt)"

section \<open>The store and the external service\<close>

text \<open>
  The file \<^verbatim>\<open>feedback.db\<close> is absent, cannot be opened (the message of the
  \<^verbatim>\<open>OperationalError\<close> is given), or is there; a file that is there answers the fixed
  query on table \<^verbatim>\<open>reviews\<close> with an exception or with its rows \<open>(id, review_text)\<close>.
  \<^verbatim>\<open>sqlite3.connect\<close> on an absent file creates an empty database, in which the query
  finds no table.
\<close>

datatype store =
    Absent
  | Unopenable string
  | Present "exc + (int \<times> string) list"

type_synonym connection = "exc + (int \<times> string) list"

fun sqlite3_connect :: "store \<Rightarrow> exc + connection" where
  "sqlite3_connect Absent = Inr (Inl (OperationalError ''no such table: reviews''))"
| "sqlite3_connect (Unopenable m) = Inl (OperationalError m)"
| "sqlite3_connect (Present q) = Inr q"

fun os_path_exists :: "store \<Rightarrow> bool" where
  "os_path_exists Absent = False"
| "os_path_exists s = True"

text \<open>The prompt of the summary call is one fixed text with three values interpolated;
  it is kept as those three values.\<close>

record summary_prompt =
  distribution :: counter
  top_positive :: counter
  top_negative :: counter

text \<open>
  What lies outside the program: the store, and the answers of the service.
  \<open>chat_json i text\<close> is the outcome of the body of the \<^verbatim>\<open>try\<close> in
  \<^verbatim>\<open>analyze_single_review\<close> for the review at position \<open>i\<close> (the request and
  \<^verbatim>\<open>json.loads\<close> of the reply); \<open>chat_text\<close> is the outcome of the request of
  \<^verbatim>\<open>get_final_summary\<close>. \<open>repr_container\<close> is Python's \<^verbatim>\<open>repr\<close> of a list or dict,
  \<open>bar_error\<close> is the text of the \<^verbatim>\<open>TypeError\<close> of \<^verbatim>\<open>ax.bar\<close> for labels it cannot
  place, and \<open>wordcloud_generate\<close> tells whether \<^verbatim>\<open>WordCloud.generate\<close> raises on a
  text.
\<close>

record env =
  store :: store
  chat_json :: "nat \<Rightarrow> string \<Rightarrow> exc + json"
  chat_text :: "summary_prompt \<Rightarrow> exc + string"
  repr_container :: "json \<Rightarrow> string"
  bar_error :: "json list \<Rightarrow> string"
  wordcloud_generate :: "string \<Rightarrow> exc option"

section \<open>Effects\<close>

text \<open>
  A callback handed to the UI thread with \<^verbatim>\<open>root.after(0, ...)\<close>: a new status text,
  the re-enabling of the button, or \<^verbatim>\<open>populate_gui\<close> with its five arguments.
\<close>

datatype ui_callback =
    SetStatus string
  | EnableButton
  | PopulateGui string counter "json list" "json list" "(string \<times> json) list"

datatype event =
    Post ui_callback
  | DbConnect
  | DbClose
  | AnalyzeCall string
  | SummaryCall summary_prompt
  | Print string
  | ShowError string string
  | ShowInfo string string

type_synonym 'a io = "event list \<times> (exc + 'a)"

definition prepend :: "event list \<Rightarrow> 'a io \<Rightarrow> 'a io" where
  "prepend es c = (es @ fst c, snd c)"

definition update_status :: "string \<Rightarrow> event" where
  "update_status message = Post (SetStatus message)"

section \<open>The pipeline of \<^verbatim>\<open>MainGui.py\<close>\<close>

definition analyze_single_review :: "env \<Rightarrow> nat \<Rightarrow> string \<Rightarrow> json io" where
  "analyze_single_review \<E> i review_text =
     (case chat_json \<E> i review_text of
        Inr result \<Rightarrow> ([AnalyzeCall review_text], Inr result)
      | Inl e \<Rightarrow>
          ([AnalyzeCall review_text, Print (''Error analyzing review: '' @ exc_str e)],
           Inr JNull))"

type_synonym acc = "(string \<times> json) list \<times> json list \<times> json list"

text \<open>One turn of the loop of \<^verbatim>\<open>run_analysis\<close>; the accumulator holds
  \<^verbatim>\<open>all_results\<close>, \<^verbatim>\<open>all_sentiments\<close> and \<^verbatim>\<open>all_aspects\<close>.\<close>

definition absorb :: "string \<Rightarrow> json \<Rightarrow> acc \<Rightarrow> exc + acc" where
  "absorb review_text analysis a =
     (case a of (all_results, all_sentiments, all_aspects) \<Rightarrow>
        if truthy analysis then
          (case dict_get analysis ''sentiment'' (JStr ''neutral'') of
             Inl e \<Rightarrow> Inl e
           | Inr s \<Rightarrow>
               (case dict_get analysis ''aspects'' (JArr []) of
                  Inl e \<Rightarrow> Inl e
                | Inr asp \<Rightarrow>
                    (case py_iter asp of
                       Inl e \<Rightarrow> Inl e
                     | Inr xs \<Rightarrow>
                         Inr (all_results @ [(review_text, analysis)],
                              all_sentiments @ [s],
                              all_aspects @ xs))))
        else Inr a)"

definition loop_body :: "env \<Rightarrow> nat \<Rightarrow> nat \<times> string \<Rightarrow> acc \<Rightarrow> acc io" where
  "loop_body \<E> n ir a =
     (case ir of (i, review_text) \<Rightarrow>
        prepend
          [update_status (''Analyzing review '' @ show_nat (i + 1) @ '' of '' @ show_nat n @ ''...'')]
          (case analyze_single_review \<E> i review_text of
             (es, Inl e) \<Rightarrow> (es, Inl e)
           | (es, Inr analysis) \<Rightarrow> (es, absorb review_text analysis a)))"

fun analysis_loop :: "env \<Rightarrow> nat \<Rightarrow> (nat \<times> string) list \<Rightarrow> acc \<Rightarrow> acc io" where
  "analysis_loop \<E> n [] a = ([], Inr a)"
| "analysis_loop \<E> n (ir # rest) a =
     (case loop_body \<E> n ir a of
        (es, Inl e) \<Rightarrow> (es, Inl e)
      | (es, Inr a') \<Rightarrow> prepend es (analysis_loop \<E> n rest a'))"

text \<open>The two list comprehensions over \<^verbatim>\<open>all_aspects\<close>: the condition
  \<^verbatim>\<open>a['sentiment'] == s\<close> is evaluated first, then \<^verbatim>\<open>a['feature']\<close>.\<close>

fun aspect_words :: "string \<Rightarrow> json list \<Rightarrow> exc + json list" where
  "aspect_words s [] = Inr []"
| "aspect_words s (a # as) =
     (case subscript a ''sentiment'' of
        Inl e \<Rightarrow> Inl e
      | Inr v \<Rightarrow>
          if v = JStr s then
            (case subscript a ''feature'' of
               Inl e \<Rightarrow> Inl e
             | Inr f \<Rightarrow>
                 (case aspect_words s as of Inl e \<Rightarrow> Inl e | Inr fs \<Rightarrow> Inr (f # fs)))
          else aspect_words s as)"

definition create_summary_prompt ::
  "counter \<Rightarrow> json list \<Rightarrow> json list \<Rightarrow> exc + summary_prompt" where
  "create_summary_prompt sentiment_counts pos_aspects neg_aspects =
     (case Counter pos_aspects of
        Inl e \<Rightarrow> Inl e
      | Inr p \<Rightarrow>
          (case Counter neg_aspects of
             Inl e \<Rightarrow> Inl e
           | Inr q \<Rightarrow>
               Inr \<lparr>distribution = sentiment_counts,
                    top_positive = most_common 10 p,
                    top_negative = most_common 10 q\<rparr>))"

definition get_final_summary :: "env \<Rightarrow> summary_prompt \<Rightarrow> string io" where
  "get_final_summary \<E> prompt =
     (case chat_text \<E> prompt of
        Inr content \<Rightarrow> ([SummaryCall prompt], Inr content)
      | Inl e \<Rightarrow> ([SummaryCall prompt], Inr (''Error generating final summary: '' @ exc_str e)))"

text \<open>Steps 3 to 5 of \<^verbatim>\<open>run_analysis\<close>, after the loop.\<close>

definition process_results :: "env \<Rightarrow> nat \<Rightarrow> acc \<Rightarrow> unit io" where
  "process_results \<E> n a =
     (case a of (all_results, all_sentiments, all_aspects) \<Rightarrow>
        prepend [update_status ''All reviews analyzed. Processing results...'']
          (case Counter all_sentiments of
             Inl e \<Rightarrow> ([], Inl e)
           | Inr sentiment_counts \<Rightarrow>
               (case aspect_words ''positive'' all_aspects of
                  Inl e \<Rightarrow> ([], Inl e)
                | Inr pos_aspect_words \<Rightarrow>
                    (case aspect_words ''negative'' all_aspects of
                       Inl e \<Rightarrow> ([], Inl e)
                     | Inr neg_aspect_words \<Rightarrow>
                         prepend [update_status ''Generating final summary and recommendations...'']
                           (case create_summary_prompt sentiment_counts pos_aspect_words
                                   neg_aspect_words of
                              Inl e \<Rightarrow> ([], Inl e)
                            | Inr summary_prompt \<Rightarrow>
                                (case get_final_summary \<E> summary_prompt of
                                   (es, Inl e) \<Rightarrow> (es, Inl e)
                                 | (es, Inr final_summary) \<Rightarrow>
                                     (es @
                                      [Post (PopulateGui final_summary sentiment_counts
                                               pos_aspect_words neg_aspect_words all_results),
                                       update_status (''Analysis complete! Processed '' @
                                                      show_nat n @ '' reviews.'')],
                                      Inr ())))))))"

text \<open>The body of the \<^verbatim>\<open>try\<close> of \<^verbatim>\<open>run_analysis\<close>. The query selects the column
  \<^verbatim>\<open>review_text\<close> alone.\<close>

definition run_body :: "env \<Rightarrow> unit io" where
  "run_body \<E> =
     prepend [update_status ''Connecting to database 'feedback.db'...'']
       (case sqlite3_connect (store \<E>) of
          Inl e \<Rightarrow> ([], Inl e)
        | Inr conn \<Rightarrow>
            prepend [DbConnect]
              (case conn of
                 Inl e \<Rightarrow> ([], Inl e)
               | Inr rows \<Rightarrow>
                   (let all_reviews_text = map snd rows in
                    prepend [DbClose]
                      (if all_reviews_text = [] then
                         ([update_status ''Error: No reviews found in 'feedback.db'.'',
                           Post EnableButton], Inr ())
                       else
                         prepend
                           [update_status (''Loaded '' @ show_nat (length all_reviews_text) @
                                           '' reviews.'')]
                           (case analysis_loop \<E> (length all_reviews_text)
                                   (enumerate 0 all_reviews_text) ([], [], []) of
                              (es, Inl e) \<Rightarrow> (es, Inl e)
                            | (es, Inr a) \<Rightarrow>
                                prepend es
                                  (process_results \<E> (length all_reviews_text) a))))))"

text \<open>\<^verbatim>\<open>run_analysis\<close>: the body, the two handlers and the \<^verbatim>\<open>finally\<close> clause. The result
  is everything the worker thread does, in order.\<close>

definition run_analysis :: "env \<Rightarrow> event list" where
  "run_analysis \<E> =
     (case run_body \<E> of
        (es, Inr u) \<Rightarrow> es @ [Post EnableButton]
      | (es, Inl e) \<Rightarrow>
          es @
          [update_status
             (if is_OperationalError e then
                ''Database Error: '' @ exc_str e @
                ''. Check 'feedback.db', table 'reviews', or column 'review_text'.''
              else ''An unexpected error occurred: '' @ exc_str e)] @
          [Post EnableButton])"

section \<open>The window of \<^verbatim>\<open>MainGui.py\<close>\<close>

text \<open>
  The widgets the claims speak of. A tab that holds charts is the list of its children;
  a text tab is its content, the raw listing as the list of the chunks inserted, each
  with its tags. The calls into tkinter and matplotlib are taken to succeed, but for
  \<^verbatim>\<open>ax.bar\<close> on labels it cannot place and \<^verbatim>\<open>WordCloud.generate\<close>.
\<close>

datatype button_state = Normal | Disabled

datatype widget =
    ChartCanvas "json list" "nat list" "string list"
  | WordCloudCanvas string string
  | Label string

type_synonym chunk = "string \<times> string list"

record ui =
  button_state :: button_state
  button_text :: string
  status_label :: string
  tab_summary :: string
  tab_sentiment :: "widget list"
  tab_pos_aspects :: "widget list"
  tab_neg_aspects :: "widget list"
  tab_all_reviews :: "chunk list"

definition nl :: string where
  "nl = [CHR 0x0A]"

definition clear_previous_results :: "ui \<Rightarrow> ui" where
  "clear_previous_results u =
     u\<lparr>tab_summary := [], tab_all_reviews := [],
       tab_sentiment := [], tab_pos_aspects := [], tab_neg_aspects := []\<rparr>"

text \<open>\<^verbatim>\<open>start_analysis_thread\<close>, up to the start of the worker.\<close>

definition start_analysis_thread :: "ui \<Rightarrow> ui" where
  "start_analysis_thread u =
     clear_previous_results
       (u\<lparr>button_state := Disabled, button_text := ''Analyzing... Please Wait...''\<rparr>)"

text \<open>\<^verbatim>\<open>str.lower\<close> on the ASCII letters.\<close>

definition lower_char :: "char \<Rightarrow> char" where
  "lower_char c =
     (case map_of (zip ''ABCDEFGHIJKLMNOPQRSTUVWXYZ'' ''abcdefghijklmnopqrstuvwxyz'') c of
        Some d \<Rightarrow> d
      | None \<Rightarrow> c)"

definition lower :: "string \<Rightarrow> string" where
  "lower s = map lower_char s"

text \<open>What an f-string writes for a value: a string as it is, \<^verbatim>\<open>None\<close>, a boolean or
  an integer by name, a list or dict by its \<^verbatim>\<open>repr\<close>.\<close>

fun py_str :: "env \<Rightarrow> json \<Rightarrow> string" where
  "py_str \<E> JNull = ''None''"
| "py_str \<E> (JBool b) = (if b then ''True'' else ''False'')"
| "py_str \<E> (JNum n) = show_int n"
| "py_str \<E> (JStr s) = s"
| "py_str \<E> v = repr_container \<E> v"

text \<open>\<^verbatim>\<open>" ".join(words_list)\<close>: every item has to be a string.\<close>

fun py_join :: "nat \<Rightarrow> json list \<Rightarrow> exc + string" where
  "py_join i [] = Inr []"
| "py_join i (v # ws) =
     (case v of
        JStr s \<Rightarrow>
          (if ws = [] then Inr s
           else (case py_join (Suc i) ws of Inl e \<Rightarrow> Inl e | Inr t \<Rightarrow> Inr (s @ '' '' @ t)))
      | _ \<Rightarrow>
          Inl (TypeError (''sequence item '' @ show_nat i @ '': expected str instance, '' @
                          type_name v @ '' found'')))"

definition label_color :: "json \<Rightarrow> string" where
  "label_color l =
     (if l = JStr ''positive'' then ''#4CAF50''
      else if l = JStr ''negative'' then ''#F44336'' else ''#FFC107'')"

text \<open>
  \<^verbatim>\<open>ax.bar(labels, values, color=colors)\<close> places string labels on a categorical axis
  and numbers on a numeric one. It raises \<^verbatim>\<open>TypeError\<close> when a label is \<^verbatim>\<open>None\<close> and
  when strings are mixed with other values.
\<close>

definition bar_raises :: "json list \<Rightarrow> bool" where
  "bar_raises labels =
     (list_ex (\<lambda>l. l = JNull) labels \<or>
      (list_ex is_str labels \<and> list_ex (\<lambda>l. \<not> is_str l) labels))"

text \<open>\<^verbatim>\<open>draw_sentiment_chart\<close> gives the new children of the sentiment tab, and the
  exception if it raises (the old children are destroyed first).\<close>

definition draw_sentiment_chart :: "env \<Rightarrow> counter \<Rightarrow> widget list \<times> exc option" where
  "draw_sentiment_chart \<E> counts =
     (let labels = map fst counts;
          values = map snd counts;
          colors = map label_color labels
      in if bar_raises labels then ([], Some (TypeError (bar_error \<E> labels)))
         else ([ChartCanvas labels values colors], None))"

text \<open>\<^verbatim>\<open>draw_word_cloud\<close> gives the new children of the tab, and the exception if it
  raises (the old children are destroyed first).\<close>

definition draw_word_cloud :: "env \<Rightarrow> json list \<Rightarrow> string \<Rightarrow> widget list \<times> exc option" where
  "draw_word_cloud \<E> words_list title =
     (if words_list = [] then ([Label (''No '' @ lower title @ '' found.'')], None)
      else
        (case py_join 0 words_list of
           Inl e \<Rightarrow> ([], Some e)
         | Inr text \<Rightarrow>
             (case wordcloud_generate \<E> text of
                Some e \<Rightarrow> ([], Some e)
              | None \<Rightarrow> ([WordCloudCanvas text title], None))))"

text \<open>The inner loop of step 4 of \<^verbatim>\<open>populate_gui\<close>: one line for each aspect.\<close>

fun aspect_lines :: "env \<Rightarrow> json list \<Rightarrow> chunk list \<times> exc option" where
  "aspect_lines \<E> [] = ([], None)"
| "aspect_lines \<E> (aspect # rest) =
     (case dict_get aspect ''feature'' JNull of
        Inl e \<Rightarrow> ([], Some e)
      | Inr f \<Rightarrow>
          (case dict_get aspect ''sentiment'' JNull of
             Inl e \<Rightarrow> ([], Some e)
           | Inr s \<Rightarrow>
               (case aspect_lines \<E> rest of
                  (cs, r) \<Rightarrow> ((''  - '' @ py_str \<E> f @ '': '' @ py_str \<E> s @ nl, []) # cs, r))))"

text \<open>The chunks inserted for one entry of \<^verbatim>\<open>all_results\<close>.\<close>

definition review_entry :: "env \<Rightarrow> nat \<Rightarrow> string \<times> json \<Rightarrow> chunk list \<times> exc option" where
  "review_entry \<E> i ra =
     (case ra of (review, analysis) \<Rightarrow>
        (let head = [(''--- REVIEW '' @ show_nat (i + 1) @ '' ---'' @ nl, [''h1'']),
                     (review @ nl @ nl, [])]
         in case dict_get analysis ''sentiment'' (JStr ''N/A'') of
              Inl e \<Rightarrow> (head, Some e)
            | Inr s \<Rightarrow>
                (let head2 = head @ [(''Sentiment: '' @ py_str \<E> s @ nl, [''bold'']),
                                     (''Aspects:'' @ nl, [])]
                 in case dict_get analysis ''aspects'' (JArr []) of
                      Inl e \<Rightarrow> (head2, Some e)
                    | Inr asp \<Rightarrow>
                        (case py_iter asp of
                           Inl e \<Rightarrow> (head2, Some e)
                         | Inr xs \<Rightarrow>
                             (case aspect_lines \<E> xs of
                                (cs, Some e) \<Rightarrow> (head2 @ cs, Some e)
                              | (cs, None) \<Rightarrow> (head2 @ cs @ [(nl @ nl, [])], None))))))"

fun listing :: "env \<Rightarrow> (nat \<times> string \<times> json) list \<Rightarrow> chunk list \<times> exc option" where
  "listing \<E> [] = ([], None)"
| "listing \<E> ((i, ra) # rest) =
     (case review_entry \<E> i ra of
        (cs, Some e) \<Rightarrow> (cs, Some e)
      | (cs, None) \<Rightarrow> (case listing \<E> rest of (ds, r) \<Rightarrow> (cs @ ds, r)))"

text \<open>\<^verbatim>\<open>populate_gui\<close> runs on the UI thread; an exception leaves the window as far as it
  got.\<close>

definition populate_gui ::
  "env \<Rightarrow> ui \<Rightarrow> string \<Rightarrow> counter \<Rightarrow> json list \<Rightarrow> json list \<Rightarrow> (string \<times> json) list
     \<Rightarrow> ui \<times> exc option" where
  "populate_gui \<E> u summary sentiment_counts pos_words neg_words all_results =
     (let u1 = u\<lparr>tab_summary := summary\<rparr>
      in case draw_sentiment_chart \<E> sentiment_counts of
           (cs, Some e) \<Rightarrow> (u1\<lparr>tab_sentiment := cs\<rparr>, Some e)
         | (cs, None) \<Rightarrow>
             (let u2 = u1\<lparr>tab_sentiment := cs\<rparr>
              in case draw_word_cloud \<E> pos_words ''Positive Aspects'' of
                   (ws, Some e) \<Rightarrow> (u2\<lparr>tab_pos_aspects := ws\<rparr>, Some e)
                 | (ws, None) \<Rightarrow>
                     (let u3 = u2\<lparr>tab_pos_aspects := ws\<rparr>
                      in case draw_word_cloud \<E> neg_words ''Negative Aspects'' of
                           (vs, Some e) \<Rightarrow> (u3\<lparr>tab_neg_aspects := vs\<rparr>, Some e)
                         | (vs, None) \<Rightarrow>
                             (case listing \<E> (enumerate 0 all_results) of
                                (ls, r) \<Rightarrow>
                                  (u3\<lparr>tab_neg_aspects := vs, tab_all_reviews := ls\<rparr>, r)))))"

fun apply_callback :: "env \<Rightarrow> ui \<Rightarrow> ui_callback \<Rightarrow> ui" where
  "apply_callback \<E> u (SetStatus message) = u\<lparr>status_label := message\<rparr>"
| "apply_callback \<E> u EnableButton =
     u\<lparr>button_state := Normal, button_text := ''Analyze All Customer Reviews''\<rparr>"
| "apply_callback \<E> u (PopulateGui summary counts pos neg results) =
     fst (populate_gui \<E> u summary counts pos neg results)"

text \<open>The callbacks a run hands to the UI thread, in the order posted.\<close>

fun posted :: "event list \<Rightarrow> ui_callback list" where
  "posted [] = []"
| "posted (Post c # es) = c # posted es"
| "posted (e # es) = posted es"

text \<open>The states the window goes through while the UI thread works the callbacks off.\<close>

fun ui_states :: "env \<Rightarrow> ui \<Rightarrow> ui_callback list \<Rightarrow> ui list" where
  "ui_states \<E> u [] = [u]"
| "ui_states \<E> u (c # cs) = u # ui_states \<E> (apply_callback \<E> u c) cs"

text \<open>One run, from the click on the button: the button is disabled and the tabs are
  cleared on the UI thread, the worker runs, its callbacks are applied.\<close>

definition press_analyze :: "env \<Rightarrow> ui \<Rightarrow> ui list" where
  "press_analyze \<E> u = ui_states \<E> (start_analysis_thread u) (posted (run_analysis \<E>))"

section \<open>The viewer of \<^verbatim>\<open>DatabaseTest.py\<close>\<close>

text \<open>\<^verbatim>\<open>load_feedback\<close>: what it does, the rows of the grid afterwards, and the exception
  it lets through, if any. The grid is emptied first.\<close>

definition viewer_handler :: "exc \<Rightarrow> event list \<times> exc option" where
  "viewer_handler e =
     (if is_sqlite3_Error e then
        ([ShowError ''Database Error''
            (''An error occurred: '' @ exc_str e @ nl @ nl @
             ''Could not read table 'reviews'.'')], None)
      else ([], Some e))"

definition load_feedback :: "store \<Rightarrow> event list \<times> (int \<times> string) list \<times> exc option" where
  "load_feedback db =
     (if \<not> os_path_exists db then
        ([ShowError ''Error''
            (''Database file not found: feedback.db'' @ nl @
             ''Please place it in the same folder as the script.'')], [], None)
      else
        (case sqlite3_connect db of
           Inl e \<Rightarrow> (case viewer_handler e of (es, r) \<Rightarrow> (es, [], r))
         | Inr conn \<Rightarrow>
             (case conn of
                Inl e \<Rightarrow>
                  (case viewer_handler e of (es, r) \<Rightarrow> ([DbConnect] @ es @ [DbClose], [], r))
              | Inr rows \<Rightarrow>
                  if rows = [] then
                    ([DbConnect, ShowInfo ''Info'' ''No data found in the table.'', DbClose],
                     [], None)
                  else ([DbConnect, DbClose], rows, None))))"

section \<open>Notions used in the statements\<close>

text \<open>The value \<^verbatim>\<open>analyze_single_review\<close> returns for the review at a position;
  \<open>JNull\<close> is "absent".\<close>

definition analysis_of :: "env \<Rightarrow> nat \<times> string \<Rightarrow> json" where
  "analysis_of \<E> ir =
     (case snd (analyze_single_review \<E> (fst ir) (snd ir)) of Inr v \<Rightarrow> v | Inl e \<Rightarrow> JNull)"

text \<open>The reviews whose analysis is not absent, and those that pass the test
  \<^verbatim>\<open>if analysis:\<close> of the loop.\<close>

definition succeeded :: "env \<Rightarrow> (nat \<times> string) list \<Rightarrow> (nat \<times> string) list" where
  "succeeded \<E> irs = filter (\<lambda>ir. analysis_of \<E> ir \<noteq> JNull) irs"

definition kept :: "env \<Rightarrow> (nat \<times> string) list \<Rightarrow> (nat \<times> string) list" where
  "kept \<E> irs = filter (\<lambda>ir. truthy (analysis_of \<E> ir)) irs"

text \<open>The top-level sentiment of an analysis with \<^verbatim>\<open>neutral\<close> for a missing field, its
  aspects, and the feature of an aspect.\<close>

definition sentiment_of :: "json \<Rightarrow> json" where
  "sentiment_of v = (case dict_get v ''sentiment'' (JStr ''neutral'') of Inr s \<Rightarrow> s | Inl e \<Rightarrow> JNull)"

definition aspects_of :: "json \<Rightarrow> json list" where
  "aspects_of v =
     (case dict_get v ''aspects'' (JArr []) of
        Inr a \<Rightarrow> (case py_iter a of Inr xs \<Rightarrow> xs | Inl e \<Rightarrow> [])
      | Inl e \<Rightarrow> [])"

definition feature_of :: "json \<Rightarrow> json" where
  "feature_of a = (case subscript a ''feature'' of Inr f \<Rightarrow> f | Inl e \<Rightarrow> JNull)"

text \<open>The sentiments the specification counts: one for every review whose analysis is
  not absent.\<close>

definition spec_sentiments :: "env \<Rightarrow> (nat \<times> string) list \<Rightarrow> json list" where
  "spec_sentiments \<E> irs = map (\<lambda>ir. sentiment_of (analysis_of \<E> ir)) (succeeded \<E> irs)"

text \<open>The sentiment counts a run hands to the presentation.\<close>

fun shown_counts :: "event list \<Rightarrow> counter list" where
  "shown_counts [] = []"
| "shown_counts (e # es) =
     (case e of
        Post (PopulateGui s c p q r) \<Rightarrow> c # shown_counts es
      | _ \<Rightarrow> shown_counts es)"

text \<open>The requests to the external service, and the review texts sent for analysis.\<close>

fun is_service_call :: "event \<Rightarrow> bool" where
  "is_service_call (AnalyzeCall t) = True"
| "is_service_call (SummaryCall p) = True"
| "is_service_call e = False"

fun analyze_calls :: "event list \<Rightarrow> string list" where
  "analyze_calls [] = []"
| "analyze_calls (e # es) = (case e of AnalyzeCall t \<Rightarrow> t # analyze_calls es | _ \<Rightarrow> analyze_calls es)"

text \<open>An analysis of the shape the system prompt asks for: an object whose sentiment, if
  there, is a string and whose aspects, if there, are a list of objects with a string
  feature and a string sentiment.\<close>

fun is_list_of :: "(json \<Rightarrow> bool) \<Rightarrow> json \<Rightarrow> bool" where
  "is_list_of P (JArr xs) = list_all P xs"
| "is_list_of P v = False"

fun conforming_aspect :: "json \<Rightarrow> bool" where
  "conforming_aspect (JObj kvs) =
     ((case map_of kvs ''sentiment'' of Some v \<Rightarrow> is_str v | None \<Rightarrow> False) \<and>
      (case map_of kvs ''feature'' of Some v \<Rightarrow> is_str v | None \<Rightarrow> False))"
| "conforming_aspect v = False"

fun conforming :: "json \<Rightarrow> bool" where
  "conforming (JObj kvs) =
     ((case map_of kvs ''sentiment'' of Some v \<Rightarrow> is_str v | None \<Rightarrow> True) \<and>
      (case map_of kvs ''aspects'' of Some v \<Rightarrow> is_list_of conforming_aspect v | None \<Rightarrow> True))"
| "conforming v = False"

subsection \<open>Concrete runs\<close>

definition heavy :: json where
  "heavy = JObj [(''sentiment'', JStr ''negative''),
                 (''aspects'', JArr [JObj [(''feature'', JStr ''comfort''),
                                           (''sentiment'', JStr ''negative''),
                                           (''quote'', JStr ''too heavy'')]])]"

text \<open>Two reviews; the request for the first fails.\<close>

definition env_one_failure :: env where
  "env_one_failure =
     \<lparr>store = Present (Inr [(1, ''love it''), (2, ''too heavy'')]),
      chat_json = (\<lambda>i t. if i = 0 then Inl (ServiceError ''timeout'') else Inr heavy),
      chat_text = (\<lambda>p. Inr ''fine''),
      repr_container = (\<lambda>v. []),
      bar_error = (\<lambda>ls. []),
      wordcloud_generate = (\<lambda>t. None)\<rparr>"

text \<open>Two reviews; the service answers the second with the empty object.\<close>

definition env_empty_reply :: env where
  "env_empty_reply =
     \<lparr>store = Present (Inr [(1, ''great display''), (2, ''hm'')]),
      chat_json = (\<lambda>i t. if i = 0
                          then Inr (JObj [(''sentiment'', JStr ''positive''), (''aspects'', JArr [])])
                          else Inr (JObj [])),
      chat_text = (\<lambda>p. Inr ''fine''),
      repr_container = (\<lambda>v. []),
      bar_error = (\<lambda>ls. []),
      wordcloud_generate = (\<lambda>t. None)\<rparr>"

text \<open>One review, answered with the empty object.\<close>

definition env_only_empty :: env where
  "env_only_empty =
     \<lparr>store = Present (Inr [(1, ''hm'')]),
      chat_json = (\<lambda>i t. Inr (JObj [])),
      chat_text = (\<lambda>p. Inr ''fine''),
      repr_container = (\<lambda>v. []),
      bar_error = (\<lambda>ls. []),
      wordcloud_generate = (\<lambda>t. None)\<rparr>"

text \<open>The window as \<^verbatim>\<open>__init__\<close> builds it.\<close>

definition initial_ui :: ui where
  "initial_ui =
     \<lparr>button_state = Normal,
      button_text = ''Analyze All Customer Reviews'',
      status_label = ''Ready. (Make sure feedback.db is in the same folder)'',
      tab_summary = ''Click the 'Analyze' button to load and process reviews.'' @ nl @ nl @
                    ''Results will appear here.'',
      tab_sentiment = [],
      tab_pos_aspects = [],
      tab_neg_aspects = [],
      tab_all_reviews = []\<rparr>"

text \<open>The texts a run shows to the user: status lines and message boxes. A text that
  opens with \<^verbatim>\<open>Error:\<close> announces an error.\<close>

fun notices :: "event list \<Rightarrow> string list" where
  "notices [] = []"
| "notices (e # es) =
     (case e of
        Post (SetStatus m) \<Rightarrow> m # notices es
      | ShowError t m \<Rightarrow> m # notices es
      | ShowInfo t m \<Rightarrow> m # notices es
      | _ \<Rightarrow> notices es)"

definition announces_error :: "string \<Rightarrow> bool" where
  "announces_error m = (take 6 m = ''Error:'')"

fun is_status :: "ui_callback \<Rightarrow> bool" where
  "is_status (SetStatus m) = True"
| "is_status c = False"

text \<open>The value of a field of an object, with a default for a missing field.\<close>

definition field :: "json \<Rightarrow> string \<Rightarrow> json \<Rightarrow> json" where
  "field v k d =
     (case v of
        JObj kvs \<Rightarrow> (case map_of kvs k of Some x \<Rightarrow> x | None \<Rightarrow> d)
      | _ \<Rightarrow> d)"

text \<open>The prompt built from no counts and no aspect words.\<close>

definition empty_prompt :: summary_prompt where
  "empty_prompt = \<lparr>distribution = [], top_positive = [], top_negative = []\<rparr>"

text \<open>A store without the table \<^verbatim>\<open>reviews\<close>, no store file, a store without rows, a
  service whose summary request fails, and a service whose every analysis request
  fails.\<close>

definition env_missing_table :: env where
  "env_missing_table =
     \<lparr>store = Present (Inl (OperationalError ''no such table: reviews'')),
      chat_json = (\<lambda>i t. Inr heavy),
      chat_text = (\<lambda>p. Inr ''fine''),
      repr_container = (\<lambda>v. []),
      bar_error = (\<lambda>ls. []),
      wordcloud_generate = (\<lambda>t. None)\<rparr>"

definition env_absent :: env where
  "env_absent =
     \<lparr>store = Absent,
      chat_json = (\<lambda>i t. Inr heavy),
      chat_text = (\<lambda>p. Inr ''fine''),
      repr_container = (\<lambda>v. []),
      bar_error = (\<lambda>ls. []),
      wordcloud_generate = (\<lambda>t. None)\<rparr>"

definition env_no_rows :: env where
  "env_no_rows =
     \<lparr>store = Present (Inr []),
      chat_json = (\<lambda>i t. Inr heavy),
      chat_text = (\<lambda>p. Inr ''fine''),
      repr_container = (\<lambda>v. []),
      bar_error = (\<lambda>ls. []),
      wordcloud_generate = (\<lambda>t. None)\<rparr>"

definition env_summary_fails :: env where
  "env_summary_fails =
     \<lparr>store = Present (Inr [(1, ''too heavy'')]),
      chat_json = (\<lambda>i t. Inr heavy),
      chat_text = (\<lambda>p. Inl (ServiceError ''rate limit'')),
      repr_container = (\<lambda>v. []),
      bar_error = (\<lambda>ls. []),
      wordcloud_generate = (\<lambda>t. None)\<rparr>"

definition env_all_fail :: env where
  "env_all_fail =
     \<lparr>store = Present (Inr [(1, ''too dear''), (2, ''too heavy'')]),
      chat_json = (\<lambda>i t. Inl (ServiceError ''down'')),
      chat_text = (\<lambda>p. Inr ''nothing to report''),
      repr_container = (\<lambda>v. []),
      bar_error = (\<lambda>ls. []),
      wordcloud_generate = (\<lambda>t. None)\<rparr>"

text \<open>  Three reviews: the second request fails, and the analysis of the third has no
  sentiment field.
\<close>

definition light :: json where
  "light = JObj [(''aspects'', JArr [JObj [(''feature'', JStr ''weight''),
                                           (''sentiment'', JStr ''positive'')]])]"

definition env_three :: env where
  "env_three =
     \<lparr>store = Present (Inr [(1, ''too heavy''), (2, ''love it''), (3, ''so light'')]),
      chat_json = (\<lambda>i t. if i = 0 then Inr heavy
                          else if i = 1 then Inl (ServiceError ''timeout'')
                          else Inr light),
      chat_text = (\<lambda>p. Inr ''fine''),
      repr_container = (\<lambda>v. []),
      bar_error = (\<lambda>ls. []),
      wordcloud_generate = (\<lambda>t. None)\<rparr>"

section \<open>Auxiliary facts\<close>

lemma analyze_single_review_returns:
  "snd (analyze_single_review \<E> i r) = Inr (analysis_of \<E> (i, r))"
  by (simp add: analysis_of_def analyze_single_review_def split: sum.splits)

lemma absorb_falsy: "\<not> truthy v \<Longrightarrow> absorb r v a = Inr a"
  by (simp add: absorb_def split: prod.splits)

lemma absorb_truthy:
  "truthy v \<Longrightarrow> absorb r v (res, sents, asps) = Inr a' \<Longrightarrow>
     a' = (res @ [(r, v)], sents @ [sentiment_of v], asps @ aspects_of v)"
  by (auto simp: absorb_def sentiment_of_def aspects_of_def split: sum.splits)

lemma loop_body_Inr:
  "snd (loop_body \<E> n ir (res, sents, asps)) = Inr a' \<Longrightarrow>
     a' = (if truthy (analysis_of \<E> ir)
           then (res @ [(snd ir, analysis_of \<E> ir)], sents @ [sentiment_of (analysis_of \<E> ir)],
                 asps @ aspects_of (analysis_of \<E> ir))
           else (res, sents, asps))"
proof -
  assume h: "snd (loop_body \<E> n ir (res, sents, asps)) = Inr a'"
  obtain i r where ir: "ir = (i, r)" by (cases ir)
  obtain es0 where a: "analyze_single_review \<E> i r = (es0, Inr (analysis_of \<E> (i, r)))"
    using analyze_single_review_returns [of \<E> i r] by (cases "analyze_single_review \<E> i r") simp
  from h have "absorb r (analysis_of \<E> (i, r)) (res, sents, asps) = Inr a'"
    by (simp add: loop_body_def ir a prepend_def)
  then show ?thesis
    using absorb_truthy [of "analysis_of \<E> (i, r)" r res sents asps a']
      absorb_falsy [of "analysis_of \<E> (i, r)" r "(res, sents, asps)"]
    by (cases "truthy (analysis_of \<E> (i, r))") (simp_all add: ir)
qed

lemma analysis_loop_Inr:
  "snd (analysis_loop \<E> n irs (res, sents, asps)) = Inr (res', sents', asps') \<Longrightarrow>
     res' = res @ map (\<lambda>ir. (snd ir, analysis_of \<E> ir)) (kept \<E> irs) \<and>
     sents' = sents @ map (\<lambda>ir. sentiment_of (analysis_of \<E> ir)) (kept \<E> irs) \<and>
     asps' = asps @ concat (map (\<lambda>ir. aspects_of (analysis_of \<E> ir)) (kept \<E> irs))"
proof (induction irs arbitrary: res sents asps)
  case Nil
  then show ?case by (simp add: kept_def)
next
  case (Cons ir irs)
  obtain es1 r1 where b: "loop_body \<E> n ir (res, sents, asps) = (es1, r1)"
    by (cases "loop_body \<E> n ir (res, sents, asps)")
  show ?case
  proof (cases r1)
    case (Inl e)
    with Cons.prems b show ?thesis by simp
  next
    case (Inr a1)
    obtain res1 sents1 asps1 where a1: "a1 = (res1, sents1, asps1)" by (cases a1)
    from Cons.prems b Inr a1
    have rest: "snd (analysis_loop \<E> n irs (res1, sents1, asps1)) = Inr (res', sents', asps')"
      by (simp add: prepend_def)
    note ih = Cons.IH [OF rest]
    from loop_body_Inr [of \<E> n ir res sents asps a1] b Inr
    have step: "a1 = (if truthy (analysis_of \<E> ir)
           then (res @ [(snd ir, analysis_of \<E> ir)], sents @ [sentiment_of (analysis_of \<E> ir)],
                 asps @ aspects_of (analysis_of \<E> ir))
           else (res, sents, asps))" by simp
    show ?thesis
      using ih step a1 by (cases "truthy (analysis_of \<E> ir)") (simp_all add: kept_def)
  qed
qed

lemma counter_total_add: "counter_total (counter_add cnt k) = Suc (counter_total cnt)"
  by (induction cnt k rule: counter_add.induct) (simp_all add: counter_total_def)

lemma counter_total_update:
  "counter_update cnt xs = Inr cnt' \<Longrightarrow> counter_total cnt' = counter_total cnt + length xs"
  by (induction cnt xs rule: counter_update.induct) (auto simp: counter_total_add split: if_splits)

lemma counter_get_add:
  "counter_get (counter_add cnt x) k = counter_get cnt k + (if key_eq x k then 1 else 0)"
  by (induction cnt x rule: counter_add.induct) (auto simp: key_eq_def)

lemma counter_get_update:
  "counter_update cnt xs = Inr cnt' \<Longrightarrow>
     counter_get cnt' k = counter_get cnt k + length (filter (\<lambda>x. key_eq x k) xs)"
  by (induction cnt xs rule: counter_update.induct) (auto simp: counter_get_add split: if_splits)

lemma aspect_words_Inr:
  "aspect_words s as = Inr ws \<Longrightarrow>
     ws = map feature_of (filter (\<lambda>a. subscript a ''sentiment'' = Inr (JStr s)) as)"
  by (induction as arbitrary: ws) (auto simp: feature_of_def split: sum.splits if_splits)

lemma is_strE: "is_str v \<Longrightarrow> \<exists>s. v = JStr s"
  by (cases v) simp_all

lemma is_list_ofE: "is_list_of P v \<Longrightarrow> \<exists>xs. v = JArr xs \<and> list_all P xs"
  by (cases v) simp_all

lemma conforming_aspectE:
  "conforming_aspect a \<Longrightarrow>
     \<exists>kvs s f. a = JObj kvs \<and> map_of kvs ''sentiment'' = Some (JStr s) \<and>
                map_of kvs ''feature'' = Some (JStr f)"
  by (cases a) (auto split: option.splits dest: is_strE)

lemma conforming_sentiment_of: "conforming v \<Longrightarrow> \<exists>s. sentiment_of v = JStr s"
  by (cases v) (auto simp: sentiment_of_def split: option.splits dest: is_strE)

lemma conforming_aspects: "conforming v \<Longrightarrow> list_all conforming_aspect (aspects_of v)"
  by (cases v) (auto simp: aspects_of_def split: option.splits dest!: is_list_ofE)

lemma conforming_absorb:
  assumes "conforming v"
  shows "\<exists>a'. absorb r v a = Inr a'"
proof -
  from assms obtain kvs where v: "v = JObj kvs" by (cases v) auto
  obtain res sents asps where a: "a = (res, sents, asps)" by (cases a)
  have "\<exists>xs. py_iter (case map_of kvs ''aspects'' of None \<Rightarrow> JArr [] | Some x \<Rightarrow> x) = Inr xs"
    using assms v by (auto split: option.splits dest!: is_list_ofE)
  then show ?thesis by (auto simp: absorb_def v a)
qed

lemmas run_defs = run_analysis_def run_body_def process_results_def loop_body_def
  analyze_single_review_def absorb_def prepend_def update_status_def Counter_def
  create_summary_prompt_def get_final_summary_def most_common_def

lemma loop_body_defined:
  assumes "truthy (analysis_of \<E> ir) \<longrightarrow> conforming (analysis_of \<E> ir)"
  shows "\<exists>a'. snd (loop_body \<E> n ir a) = Inr a'"
proof -
  obtain i r where ir: "ir = (i, r)" by (cases ir)
  obtain es0 where a: "analyze_single_review \<E> i r = (es0, Inr (analysis_of \<E> (i, r)))"
    using analyze_single_review_returns [of \<E> i r] by (cases "analyze_single_review \<E> i r") simp
  have "\<exists>a'. absorb r (analysis_of \<E> (i, r)) a = Inr a'"
    using assms conforming_absorb [of "analysis_of \<E> (i, r)" r a]
      absorb_falsy [of "analysis_of \<E> (i, r)" r a] by (cases "truthy (analysis_of \<E> (i, r))") (simp_all add: ir del: split_paired_Ex)
  then show ?thesis by (simp add: loop_body_def ir a prepend_def del: split_paired_Ex)
qed

lemma analysis_loop_defined:
  "\<forall>ir\<in>set irs. truthy (analysis_of \<E> ir) \<longrightarrow> conforming (analysis_of \<E> ir) \<Longrightarrow>
     \<exists>a'. snd (analysis_loop \<E> n irs a) = Inr a'"
proof (induction irs arbitrary: a)
  case Nil
  then show ?case by (simp del: split_paired_Ex)
next
  case (Cons ir irs)
  from Cons.prems loop_body_defined [of \<E> ir n a]
  obtain a1 where b: "snd (loop_body \<E> n ir a) = Inr a1" by auto
  from Cons.IH [of a1] Cons.prems obtain a2 where "snd (analysis_loop \<E> n irs a1) = Inr a2" by auto
  with b show ?case by (cases "loop_body \<E> n ir a") (simp add: prepend_def del: split_paired_Ex)
qed

lemma counter_update_defined:
  "list_all hashable xs \<Longrightarrow> \<exists>c. counter_update cnt xs = Inr c"
  by (induction xs arbitrary: cnt) simp_all

lemma aspect_words_defined:
  "list_all conforming_aspect as \<Longrightarrow> \<exists>ws. aspect_words s as = Inr ws"
proof (induction as)
  case Nil
  then show ?case by simp
next
  case (Cons a as)
  then obtain ws where "aspect_words s as = Inr ws" by auto
  with Cons.prems show ?case
    by (auto dest!: conforming_aspectE)
qed

lemma analyze_calls_append: "analyze_calls (es @ fs) = analyze_calls es @ analyze_calls fs"
  by (induction es) (auto split: event.splits)

lemma analyze_calls_loop_body: "analyze_calls (fst (loop_body \<E> n ir a)) = [snd ir]"
  by (cases ir)
     (auto simp: loop_body_def prepend_def update_status_def analyze_single_review_def
           split: sum.splits prod.splits)

lemma analyze_calls_loop:
  "(\<exists>k. analyze_calls (fst (analysis_loop \<E> n irs a)) = take k (map snd irs)) \<and>
   ((\<exists>a'. snd (analysis_loop \<E> n irs a) = Inr a') \<longrightarrow>
      analyze_calls (fst (analysis_loop \<E> n irs a)) = map snd irs)"
proof (induction irs arbitrary: a)
  case Nil
  then show ?case by simp
next
  case (Cons ir irs)
  obtain es1 r1 where b: "loop_body \<E> n ir a = (es1, r1)" by (cases "loop_body \<E> n ir a")
  have c1: "analyze_calls es1 = [snd ir]" using analyze_calls_loop_body [of \<E> n ir a] b by simp
  show ?case
  proof (cases r1)
    case (Inl e)
    have "analyze_calls (fst (analysis_loop \<E> n (ir # irs) a)) = take 1 (map snd (ir # irs))"
      using b Inl c1 by simp
    moreover have "\<not> (\<exists>a'. snd (analysis_loop \<E> n (ir # irs) a) = Inr a')"
      using b Inl by simp
    ultimately show ?thesis by blast
  next
    case (Inr a1)
    from Cons.IH [of a1] obtain k where
      k: "analyze_calls (fst (analysis_loop \<E> n irs a1)) = take k (map snd irs)" by blast
    have e: "analyze_calls (fst (analysis_loop \<E> n (ir # irs) a)) =
             snd ir # analyze_calls (fst (analysis_loop \<E> n irs a1))"
      using b Inr c1 by (simp add: prepend_def analyze_calls_append)
    have "analyze_calls (fst (analysis_loop \<E> n (ir # irs) a)) = take (Suc k) (map snd (ir # irs))"
      using e k by simp
    moreover have "(\<exists>a'. snd (analysis_loop \<E> n (ir # irs) a) = Inr a') \<longrightarrow>
      analyze_calls (fst (analysis_loop \<E> n (ir # irs) a)) = map snd (ir # irs)"
      using e Cons.IH [of a1] b Inr by (simp add: prepend_def)
    ultimately show ?thesis by blast
  qed
qed


lemma load_feedback_releases:
  "length (filter (\<lambda>e. e = DbConnect) (fst (load_feedback db))) =
   length (filter (\<lambda>e. e = DbClose) (fst (load_feedback db)))"
  by (cases db)
     (auto simp: load_feedback_def viewer_handler_def split: sum.splits prod.splits)

lemma posted_append: "posted (es @ fs) = posted es @ posted fs"
  by (induction es rule: posted.induct) simp_all

lemma posted_mem: "c \<in> set (posted es) \<longleftrightarrow> Post c \<in> set es"
  by (induction es rule: posted.induct) auto

lemma posted_loop_body: "list_all is_status (posted (fst (loop_body \<E> n ir a)))"
  by (cases ir)
     (auto simp: loop_body_def prepend_def update_status_def analyze_single_review_def
           split: sum.splits prod.splits)

lemma posted_loop: "list_all is_status (posted (fst (analysis_loop \<E> n irs a)))"
proof (induction irs arbitrary: a)
  case Nil
  then show ?case by simp
next
  case (Cons ir irs)
  obtain es1 r1 where b: "loop_body \<E> n ir a = (es1, r1)" by (cases "loop_body \<E> n ir a")
  have s1: "list_all is_status (posted es1)" using posted_loop_body [of \<E> n ir a] b by simp
  show ?case
  proof (cases r1)
    case (Inl e)
    with b s1 show ?thesis by simp
  next
    case (Inr a1)
    with b s1 Cons.IH [of a1] show ?thesis by (simp add: prepend_def posted_append)
  qed
qed

lemma process_results_posted:
  "(list_all is_status (posted (fst (process_results \<E> n (res, sents, asps)))) \<and>
    (\<exists>e. snd (process_results \<E> n (res, sents, asps)) = Inl e)) \<or>
   (\<exists>s c p q m1 m2 m3.
      posted (fst (process_results \<E> n (res, sents, asps))) =
        [SetStatus m1, SetStatus m2, PopulateGui s c p q res, SetStatus m3] \<and>
      snd (process_results \<E> n (res, sents, asps)) = Inr ())"
  by (auto simp: process_results_def prepend_def update_status_def get_final_summary_def
        split: sum.splits prod.splits)



lemma ui_states_hd: "\<exists>rest. ui_states \<E> u cbs = u # rest"
  by (cases cbs) simp_all

lemma last_ui_states: "last (ui_states \<E> u cbs) = foldl (apply_callback \<E>) u cbs"
proof (induction cbs arbitrary: u)
  case Nil
  then show ?case by simp
next
  case (Cons c cbs)
  obtain rest where "ui_states \<E> (apply_callback \<E> u c) cbs = apply_callback \<E> u c # rest"
    using ui_states_hd by blast
  with Cons.IH [of "apply_callback \<E> u c"] show ?case by simp
qed



lemma run_posted_rows:
  assumes st: "store \<E> = Present (Inr rows)" and ne: "rows \<noteq> []"
  shows "(\<exists>pre m e. posted (run_analysis \<E>) = pre @ [SetStatus m, EnableButton] \<and>
            list_all is_status pre \<and> snd (run_body \<E>) = Inl e) \<or>
         (\<exists>pre s c p q res sents asps m.
            posted (run_analysis \<E>) = pre @ [PopulateGui s c p q res, SetStatus m, EnableButton] \<and>
            list_all is_status pre \<and>
            snd (analysis_loop \<E> (length rows) (enumerate 0 (map snd rows)) ([], [], []))
              = Inr (res, sents, asps) \<and>
            snd (run_body \<E>) = Inr ())"
proof -
  let ?loop = "analysis_loop \<E> (length rows) (enumerate 0 (map snd rows)) ([], [], [])"
  obtain es r where l: "?loop = (es, r)" by (cases ?loop)
  have sl: "list_all is_status (posted es)"
    using posted_loop [of \<E> "length rows" "enumerate 0 (map snd rows)" "([], [], [])"] l by simp
  show ?thesis
  proof (cases r)
    case (Inl e)
    have rb: "run_body \<E> =
        ([update_status ''Connecting to database 'feedback.db'...'', DbConnect, DbClose,
          update_status (''Loaded '' @ show_nat (length rows) @ '' reviews.'')] @ es, Inl e)"
      using st ne l Inl by (simp add: run_body_def prepend_def)
    have "\<exists>m. posted (run_analysis \<E>) =
        ([SetStatus ''Connecting to database 'feedback.db'...'',
          SetStatus (''Loaded '' @ show_nat (length rows) @ '' reviews.'')] @ posted es) @
        [SetStatus m, EnableButton]"
      by (simp add: run_analysis_def rb update_status_def posted_append)
    then show ?thesis using sl rb by (intro disjI1) force
  next
    case (Inr a)
    obtain res sents asps where a: "a = (res, sents, asps)" by (cases a)
    let ?pr = "process_results \<E> (length rows) (res, sents, asps)"
    obtain fs r2 where p: "?pr = (fs, r2)" by (cases ?pr)
    have rb: "run_body \<E> =
        ([update_status ''Connecting to database 'feedback.db'...'', DbConnect, DbClose,
          update_status (''Loaded '' @ show_nat (length rows) @ '' reviews.'')] @ es @ fs, r2)"
      using st ne l Inr a p by (simp add: run_body_def prepend_def)
    from process_results_posted [of \<E> "length rows" res sents asps] p
    consider (fail) e where "list_all is_status (posted fs)" "r2 = Inl e"
      | (ok) s c p q m1 m2 m3 where
          "posted fs = [SetStatus m1, SetStatus m2, PopulateGui s c p q res, SetStatus m3]" "r2 = Inr ()"
      by auto
    then show ?thesis
    proof cases
      case fail
      have "\<exists>m. posted (run_analysis \<E>) =
          ([SetStatus ''Connecting to database 'feedback.db'...'',
            SetStatus (''Loaded '' @ show_nat (length rows) @ '' reviews.'')] @ posted es @ posted fs) @
          [SetStatus m, EnableButton]"
        by (simp add: run_analysis_def rb fail update_status_def posted_append)
      then show ?thesis using sl rb fail by (intro disjI1) force
    next
      case ok
      have "posted (run_analysis \<E>) =
          ([SetStatus ''Connecting to database 'feedback.db'...'',
            SetStatus (''Loaded '' @ show_nat (length rows) @ '' reviews.'')] @ posted es @
           [SetStatus m1, SetStatus m2]) @
          [PopulateGui s c p q res, SetStatus m3, EnableButton]"
        by (simp add: run_analysis_def rb ok update_status_def posted_append)
      moreover have "snd ?loop = Inr (res, sents, asps)" using l Inr a by simp
      moreover have "list_all is_status
          ([SetStatus ''Connecting to database 'feedback.db'...'',
            SetStatus (''Loaded '' @ show_nat (length rows) @ '' reviews.'')] @ posted es @
           [SetStatus m1, SetStatus m2])" using sl by simp
      moreover have "snd (run_body \<E>) = Inr ()" using rb ok by simp
      ultimately show ?thesis by (intro disjI2) blast
    qed
  qed
qed

lemma run_posted_populate:
  assumes st: "store \<E> = Present (Inr rows)"
      and pg: "Post (PopulateGui s c p q res) \<in> set (run_analysis \<E>)"
  shows "\<exists>pre sents asps m.
            posted (run_analysis \<E>) = pre @ [PopulateGui s c p q res, SetStatus m, EnableButton] \<and>
            list_all is_status pre \<and>
            snd (analysis_loop \<E> (length rows) (enumerate 0 (map snd rows)) ([], [], []))
              = Inr (res, sents, asps)"
proof -
  have ne: "rows \<noteq> []"
  proof
    assume "rows = []"
    with st pg show False
      by (simp add: run_analysis_def run_body_def prepend_def update_status_def)
  qed
  have m: "PopulateGui s c p q res \<in> set (posted (run_analysis \<E>))"
    using pg by (simp add: posted_mem)
  from run_posted_rows [OF st ne]
  show ?thesis
  proof (elim disjE exE conjE)
    fix pre m' e
    assume "posted (run_analysis \<E>) = pre @ [SetStatus m', EnableButton]" "list_all is_status pre"
    with m have False by (auto simp: list_all_iff)
    then show ?thesis ..
  next
    fix pre s' c' p' q' res' sents asps m'
    assume e: "posted (run_analysis \<E>) = pre @ [PopulateGui s' c' p' q' res', SetStatus m', EnableButton]"
      and sp: "list_all is_status pre"
      and l: "snd (analysis_loop \<E> (length rows) (enumerate 0 (map snd rows)) ([], [], []))
              = Inr (res', sents, asps)"
    from m e sp have "PopulateGui s c p q res = PopulateGui s' c' p' q' res'"
      by (auto simp: list_all_iff)
    with e sp l show ?thesis by auto
  qed
qed

lemma listing_None:
  "snd (listing \<E> xs) = None \<Longrightarrow>
     fst (listing \<E> xs) = concat (map (\<lambda>ira. fst (review_entry \<E> (fst ira) (snd ira))) xs)"
  by (induction xs rule: listing.induct) (auto split: prod.splits option.splits)

lemma populate_gui_None:
  "snd (populate_gui \<E> u s c p q res) = None \<Longrightarrow>
     tab_all_reviews (fst (populate_gui \<E> u s c p q res)) = fst (listing \<E> (enumerate 0 res)) \<and>
     snd (listing \<E> (enumerate 0 res)) = None"
  by (auto simp: populate_gui_def Let_def split: prod.splits option.splits)

lemma snd_populate_gui:
  "snd (populate_gui \<E> u s c p q res) = snd (populate_gui \<E> u' s c p q res)"
  by (simp add: populate_gui_def Let_def split: prod.splits option.splits)

lemma tabs_apply:
  "is_status c \<or> c = EnableButton \<Longrightarrow>
     tab_summary (apply_callback \<E> u c) = tab_summary u \<and>
     tab_sentiment (apply_callback \<E> u c) = tab_sentiment u \<and>
     tab_pos_aspects (apply_callback \<E> u c) = tab_pos_aspects u \<and>
     tab_neg_aspects (apply_callback \<E> u c) = tab_neg_aspects u \<and>
     tab_all_reviews (apply_callback \<E> u c) = tab_all_reviews u"
  by (cases c) auto

lemma tabs_foldl:
  "list_all (\<lambda>c. is_status c \<or> c = EnableButton) cbs \<Longrightarrow>
     tab_summary (foldl (apply_callback \<E>) u cbs) = tab_summary u \<and>
     tab_sentiment (foldl (apply_callback \<E>) u cbs) = tab_sentiment u \<and>
     tab_pos_aspects (foldl (apply_callback \<E>) u cbs) = tab_pos_aspects u \<and>
     tab_neg_aspects (foldl (apply_callback \<E>) u cbs) = tab_neg_aspects u \<and>
     tab_all_reviews (foldl (apply_callback \<E>) u cbs) = tab_all_reviews u"
proof (induction cbs arbitrary: u)
  case Nil
  then show ?case by simp
next
  case (Cons c cbs)
  from Cons.prems have c: "is_status c \<or> c = EnableButton"
    and r: "list_all (\<lambda>c. is_status c \<or> c = EnableButton) cbs" by simp_all
  from Cons.IH [OF r, of "apply_callback \<E> u c"] tabs_apply [OF c, of \<E> u]
  show ?case by simp
qed

lemma loop_all_falsy:
  assumes "\<forall>ir\<in>set irs. \<not> truthy (analysis_of \<E> ir)"
  shows "snd (analysis_loop \<E> n irs a) = Inr a"
proof -
  from assms have wf: "\<forall>ir\<in>set irs. truthy (analysis_of \<E> ir) \<longrightarrow> conforming (analysis_of \<E> ir)"
    by simp
  from analysis_loop_defined [OF wf, of n a] obtain a' where
    l: "snd (analysis_loop \<E> n irs a) = Inr a'" by blast
  obtain res sents asps where a: "a = (res, sents, asps)" by (cases a)
  obtain res' sents' asps' where a': "a' = (res', sents', asps')" by (cases a')
  have k: "kept \<E> irs = []" using assms by (simp add: kept_def)
  from analysis_loop_Inr [of \<E> n irs res sents asps res' sents' asps'] l a a' k
  show ?thesis by simp
qed

lemma process_results_empty:
  "\<exists>s. process_results \<E> n ([], [], []) =
     ([update_status ''All reviews analyzed. Processing results...'',
       update_status ''Generating final summary and recommendations...'',
       SummaryCall empty_prompt,
       Post (PopulateGui s [] [] [] []),
       update_status (''Analysis complete! Processed '' @ show_nat n @ '' reviews.'')],
      Inr ())"
  by (auto simp: process_results_def Counter_def create_summary_prompt_def most_common_def
        get_final_summary_def prepend_def empty_prompt_def split: sum.splits)

lemma populate_gui_empty:
  "populate_gui \<E> u s [] [] [] [] =
     (u\<lparr>tab_summary := s,
        tab_sentiment := [ChartCanvas [] [] []],
        tab_pos_aspects := [Label ''No positive aspects found.''],
        tab_neg_aspects := [Label ''No negative aspects found.''],
        tab_all_reviews := []\<rparr>, None)"
  by (simp add: populate_gui_def draw_word_cloud_def draw_sentiment_chart_def bar_raises_def
      lower_def lower_char_def)

lemmas gui_defs = press_analyze_def start_analysis_thread_def clear_previous_results_def
  populate_gui_def draw_word_cloud_def draw_sentiment_chart_def bar_raises_def label_color_def
  lower_def
  lower_char_def review_entry_def initial_ui_def



lemma aspect_lines_None:
  "snd (aspect_lines \<E> xs) = None \<Longrightarrow>
     fst (aspect_lines \<E> xs) =
       map (\<lambda>a. (''  - '' @ py_str \<E> (field a ''feature'' JNull) @ '': '' @
                  py_str \<E> (field a ''sentiment'' JNull) @ nl, [])) xs"
proof (induction xs)
  case Nil
  then show ?case by simp
next
  case (Cons a xs)
  obtain cs r' where al: "aspect_lines \<E> xs = (cs, r')" by (cases "aspect_lines \<E> xs")
  from Cons.prems obtain kvs where a: "a = JObj kvs"
    by (cases a) simp_all
  from Cons.prems a al have r: "r' = None" by simp
  from Cons.IH al r have "cs =
       map (\<lambda>a. (''  - '' @ py_str \<E> (field a ''feature'' JNull) @ '': '' @
                  py_str \<E> (field a ''sentiment'' JNull) @ nl, [])) xs" by simp
  then show ?case by (simp add: a al field_def)
qed

lemma review_entry_None:
  assumes "snd (review_entry \<E> i (r, v)) = None"
  shows "fst (review_entry \<E> i (r, v)) =
     [(''--- REVIEW '' @ show_nat (i + 1) @ '' ---'' @ nl, [''h1'']),
      (r @ nl @ nl, []),
      (''Sentiment: '' @ py_str \<E> (field v ''sentiment'' (JStr ''N/A'')) @ nl, [''bold'']),
      (''Aspects:'' @ nl, [])] @
     map (\<lambda>a. (''  - '' @ py_str \<E> (field a ''feature'' JNull) @ '': '' @
                py_str \<E> (field a ''sentiment'' JNull) @ nl, [])) (aspects_of v) @
     [(nl @ nl, [])]"
proof -
  from assms obtain kvs where v: "v = JObj kvs"
    by (cases v) (simp_all add: review_entry_def)
  let ?asp = "case map_of kvs ''aspects'' of None \<Rightarrow> JArr [] | Some x \<Rightarrow> x"
  from assms v obtain xs where it: "py_iter ?asp = Inr xs"
    by (cases "py_iter ?asp") (simp_all add: review_entry_def Let_def)
  from assms v it have al: "snd (aspect_lines \<E> xs) = None"
    by (cases "aspect_lines \<E> xs") (auto simp: review_entry_def Let_def split: option.splits)
  have ao: "aspects_of v = xs" using v it by (simp add: aspects_of_def)
  from aspect_lines_None [OF al] al v it ao show ?thesis
    by (cases "aspect_lines \<E> xs") (simp add: review_entry_def Let_def field_def)
qed

lemma listing_None_all:
  "snd (listing \<E> xs) = None \<Longrightarrow> \<forall>x\<in>set xs. snd (review_entry \<E> (fst x) (snd x)) = None"
  by (induction xs rule: listing.induct) (auto split: prod.splits option.splits)

text \<open>
  When \<^verbatim>\<open>ax.bar\<close> raises, \<^verbatim>\<open>populate_gui\<close> stops after the summary tab, with the
  sentiment tab emptied; a count under \<^verbatim>\<open>None\<close>, and a string next to a number, make it
  raise.
\<close>

lemma populate_gui_stops_at_chart:
  "bar_raises (map fst counts) \<Longrightarrow>
     populate_gui \<E> u s counts p q res =
       (u\<lparr>tab_summary := s, tab_sentiment := []\<rparr>,
        Some (TypeError (bar_error \<E> (map fst counts))))"
  by (simp add: populate_gui_def draw_sentiment_chart_def Let_def)

lemma bar_raises_examples:
  "bar_raises [JNull] \<and> bar_raises [JStr ''positive'', JNum 1] \<and>
   \<not> bar_raises [JStr ''positive'', JStr ''negative''] \<and> \<not> bar_raises []"
  by (simp add: bar_raises_def)

section \<open>The claims\<close>


subsection \<open>C1: the total of the sentiment counts\<close>

text \<open>
  C1, as the code has it. Whenever the loop of \<^verbatim>\<open>run_analysis\<close> gets through the reviews
  and \<^verbatim>\<open>Counter(all_sentiments)\<close> is built, the total of the sentiment counts is the
  number of reviews whose analysis passed the test \<^verbatim>\<open>if analysis:\<close>, that is, was neither
  absent nor empty. The total is at most the number of reviews, and smaller as soon as one
  analysis is absent or empty. An absent analysis leaves the three accumulators as they
  are.
\<close>

theorem sentiment_total_counts_kept_reviews:
  assumes "snd (analysis_loop \<E> n irs ([], [], [])) = Inr (res, sents, asps)"
      and "Counter sents = Inr counts"
  shows "counter_total counts = length (kept \<E> irs) \<and>
         counter_total counts \<le> length irs \<and>
         ((\<exists>ir\<in>set irs. \<not> truthy (analysis_of \<E> ir)) \<longrightarrow> counter_total counts < length irs) \<and>
         (\<forall>r a. absorb r JNull a = Inr a)"
proof -
  from analysis_loop_Inr [OF assms(1)]
  have s: "sents = map (\<lambda>ir. sentiment_of (analysis_of \<E> ir)) (kept \<E> irs)" by simp
  from counter_total_update [of "[]" sents counts] assms(2)
  have t: "counter_total counts = length sents" by (simp add: Counter_def counter_total_def)
  have eq: "counter_total counts = length (kept \<E> irs)" using s t by simp
  have le: "length (kept \<E> irs) \<le> length irs" by (simp add: kept_def)
  have lt: "(\<exists>ir\<in>set irs. \<not> truthy (analysis_of \<E> ir)) \<longrightarrow> length (kept \<E> irs) < length irs"
    unfolding kept_def by (auto intro: length_filter_less)
  have ab: "\<forall>r a. absorb r JNull a = Inr a" by (simp add: absorb_falsy)
  show ?thesis using eq le lt ab by simp
qed

text \<open>The theorem at the run of \<open>env_one_failure\<close>: one of two reviews is counted.\<close>

theorem sentiment_total_counts_kept_reviews_witness:
  "snd (analysis_loop env_one_failure 2 (enumerate 0 [''love it'', ''too heavy'']) ([], [], []))
     = Inr ([(''too heavy'', heavy)], [JStr ''negative''], aspects_of heavy) \<and>
   Counter [JStr ''negative''] = Inr [(JStr ''negative'', 1)] \<and>
   counter_total [(JStr ''negative'', 1)]
     = length (kept env_one_failure (enumerate 0 [''love it'', ''too heavy''])) \<and>
   counter_total [(JStr ''negative'', 1)] < length (enumerate 0 [''love it'', ''too heavy''])"
proof -
  let ?irs = "enumerate 0 [''love it'', ''too heavy'']"
  have h1: "snd (analysis_loop env_one_failure 2 ?irs ([], [], []))
     = Inr ([(''too heavy'', heavy)], [JStr ''negative''], aspects_of heavy)"
    by (simp add: env_one_failure_def run_defs heavy_def aspects_of_def)
  have h2: "Counter [JStr ''negative''] = Inr [(JStr ''negative'', 1)]"
    by (simp add: Counter_def)
  have ex: "\<exists>ir\<in>set ?irs. \<not> truthy (analysis_of env_one_failure ir)"
    by (simp add: env_one_failure_def analysis_of_def analyze_single_review_def)
  from sentiment_total_counts_kept_reviews [OF h1 h2] ex h1 h2 show ?thesis by blast
qed

text \<open>
  C1 as stated fails where the service answers a review with the empty object
  \<^verbatim>\<open>{}\<close>: the analysis is not absent, yet \<^verbatim>\<open>if analysis:\<close> skips it. In the run of
  \<open>env_empty_reply\<close> both analyses succeed and the counts handed to the presentation
  total one.
\<close>

theorem empty_object_is_not_counted:
  "map counter_total (shown_counts (run_analysis env_empty_reply)) = [1] \<and>
   length (succeeded env_empty_reply (enumerate 0 [''great display'', ''hm''])) = 2"
  by (simp add: env_empty_reply_def run_defs succeeded_def analysis_of_def counter_total_def
      key_eq_def)


subsection \<open>C2: the rules of the aggregation\<close>

text \<open>
  C2, as the code has it. Whenever the aggregation of \<^verbatim>\<open>run_analysis\<close> goes through, every
  review whose analysis passed \<^verbatim>\<open>if analysis:\<close> is counted under its top-level sentiment,
  \<^verbatim>\<open>neutral\<close> standing in for a missing field; the positive word list holds the feature
  of every aspect whose sentiment is \<^verbatim>\<open>positive\<close>, the negative one that of every aspect
  whose sentiment is \<^verbatim>\<open>negative\<close>, in order and unchanged, and no other aspect enters
  either list. The aggregation goes through whenever every analysis that is kept has the
  shape the system prompt asks for.
\<close>

theorem aggregation_rules:
  "(snd (analysis_loop \<E> n irs ([], [], [])) = Inr (res, sents, asps) \<and>
    Counter sents = Inr counts \<and>
    aspect_words ''positive'' asps = Inr pos \<and>
    aspect_words ''negative'' asps = Inr neg \<longrightarrow>
      (\<forall>k. counter_get counts k =
             length (filter (\<lambda>ir. key_eq (sentiment_of (analysis_of \<E> ir)) k) (kept \<E> irs))) \<and>
      asps = concat (map (\<lambda>ir. aspects_of (analysis_of \<E> ir)) (kept \<E> irs)) \<and>
      pos = map feature_of (filter (\<lambda>a. subscript a ''sentiment'' = Inr (JStr ''positive'')) asps) \<and>
      neg = map feature_of (filter (\<lambda>a. subscript a ''sentiment'' = Inr (JStr ''negative'')) asps)) \<and>
   ((\<forall>ir\<in>set irs. truthy (analysis_of \<E> ir) \<longrightarrow> conforming (analysis_of \<E> ir)) \<longrightarrow>
      (\<exists>res' sents' asps' counts' pos' neg'.
         snd (analysis_loop \<E> n irs ([], [], [])) = Inr (res', sents', asps') \<and>
         Counter sents' = Inr counts' \<and>
         aspect_words ''positive'' asps' = Inr pos' \<and>
         aspect_words ''negative'' asps' = Inr neg'))"
proof (intro conjI impI)
  assume h: "snd (analysis_loop \<E> n irs ([], [], [])) = Inr (res, sents, asps) \<and>
    Counter sents = Inr counts \<and>
    aspect_words ''positive'' asps = Inr pos \<and>
    aspect_words ''negative'' asps = Inr neg"
  from h analysis_loop_Inr [of \<E> n irs "[]" "[]" "[]" res sents asps]
  have s: "sents = map (\<lambda>ir. sentiment_of (analysis_of \<E> ir)) (kept \<E> irs)"
    and a: "asps = concat (map (\<lambda>ir. aspects_of (analysis_of \<E> ir)) (kept \<E> irs))"
    by simp_all
  from h have c: "counter_update [] sents = Inr counts" by (simp add: Counter_def)
  show "\<forall>k. counter_get counts k =
             length (filter (\<lambda>ir. key_eq (sentiment_of (analysis_of \<E> ir)) k) (kept \<E> irs))"
  proof
    fix k
    from counter_get_update [OF c, of k]
    show "counter_get counts k =
             length (filter (\<lambda>ir. key_eq (sentiment_of (analysis_of \<E> ir)) k) (kept \<E> irs))"
      by (simp add: s filter_map comp_def)
  qed
  show "asps = concat (map (\<lambda>ir. aspects_of (analysis_of \<E> ir)) (kept \<E> irs))" by (rule a)
  from h show "pos = map feature_of (filter (\<lambda>a. subscript a ''sentiment'' = Inr (JStr ''positive'')) asps)"
    by (simp add: aspect_words_Inr)
  from h show "neg = map feature_of (filter (\<lambda>a. subscript a ''sentiment'' = Inr (JStr ''negative'')) asps)"
    by (simp add: aspect_words_Inr)
next
  assume wf: "\<forall>ir\<in>set irs. truthy (analysis_of \<E> ir) \<longrightarrow> conforming (analysis_of \<E> ir)"
  from analysis_loop_defined [OF wf, of n "([], [], [])"]
  obtain a' where l: "snd (analysis_loop \<E> n irs ([], [], [])) = Inr a'" by blast
  obtain res' sents' asps' where a': "a' = (res', sents', asps')" by (cases a')
  from l a' analysis_loop_Inr [of \<E> n irs "[]" "[]" "[]" res' sents' asps']
  have s: "sents' = map (\<lambda>ir. sentiment_of (analysis_of \<E> ir)) (kept \<E> irs)"
    and a: "asps' = concat (map (\<lambda>ir. aspects_of (analysis_of \<E> ir)) (kept \<E> irs))"
    by simp_all
  have k: "\<forall>ir\<in>set (kept \<E> irs). conforming (analysis_of \<E> ir)"
    using wf by (simp add: kept_def)
  have "list_all hashable sents'"
    using k conforming_sentiment_of by (fastforce simp: s list_all_iff)
  then obtain counts' where c: "Counter sents' = Inr counts'"
    using counter_update_defined [of sents' "[]"] by (auto simp: Counter_def)
  have "list_all conforming_aspect asps'"
    using k conforming_aspects by (fastforce simp: a list_all_iff)
  then obtain pos' neg' where "aspect_words ''positive'' asps' = Inr pos'"
    "aspect_words ''negative'' asps' = Inr neg'"
    using aspect_words_defined by blast
  with l a' c show "\<exists>res' sents' asps' counts' pos' neg'.
         snd (analysis_loop \<E> n irs ([], [], [])) = Inr (res', sents', asps') \<and>
         Counter sents' = Inr counts' \<and>
         aspect_words ''positive'' asps' = Inr pos' \<and>
         aspect_words ''negative'' asps' = Inr neg'" by blast
qed

text \<open>The theorem at the run of \<open>env_one_failure\<close>: the one kept review is counted as
  negative and its aspect \<^verbatim>\<open>comfort\<close> is the negative word list.\<close>

theorem aggregation_rules_witness:
  "snd (analysis_loop env_one_failure 2 (enumerate 0 [''love it'', ''too heavy'']) ([], [], []))
     = Inr ([(''too heavy'', heavy)], [JStr ''negative''], aspects_of heavy) \<and>
   Counter [JStr ''negative''] = Inr [(JStr ''negative'', 1)] \<and>
   aspect_words ''positive'' (aspects_of heavy) = Inr [] \<and>
   aspect_words ''negative'' (aspects_of heavy) = Inr [JStr ''comfort''] \<and>
   conforming (analysis_of env_one_failure (1, ''too heavy'')) \<and>
   analysis_of env_one_failure (0, ''love it'') = JNull \<and>
   counter_get [(JStr ''negative'', 1)] (JStr ''negative'') =
     length (filter (\<lambda>ir. key_eq (sentiment_of (analysis_of env_one_failure ir)) (JStr ''negative''))
               (kept env_one_failure (enumerate 0 [''love it'', ''too heavy'']))) \<and>
   [JStr ''comfort''] =
     map feature_of (filter (\<lambda>a. subscript a ''sentiment'' = Inr (JStr ''negative'')) (aspects_of heavy))"
proof -
  let ?irs = "enumerate 0 [''love it'', ''too heavy'']"
  have h1: "snd (analysis_loop env_one_failure 2 ?irs ([], [], []))
     = Inr ([(''too heavy'', heavy)], [JStr ''negative''], aspects_of heavy)"
    by (simp add: env_one_failure_def run_defs heavy_def aspects_of_def)
  have h2: "Counter [JStr ''negative''] = Inr [(JStr ''negative'', 1)]"
    by (simp add: Counter_def)
  have h3: "aspect_words ''positive'' (aspects_of heavy) = Inr []"
    by (simp add: heavy_def aspects_of_def)
  have h4: "aspect_words ''negative'' (aspects_of heavy) = Inr [JStr ''comfort'']"
    by (simp add: heavy_def aspects_of_def)
  have a1: "analysis_of env_one_failure (1, ''too heavy'') = heavy"
    by (simp add: env_one_failure_def analysis_of_def analyze_single_review_def)
  have a0: "analysis_of env_one_failure (0, ''love it'') = JNull"
    by (simp add: env_one_failure_def analysis_of_def analyze_single_review_def)
  have cf: "conforming (analysis_of env_one_failure (1, ''too heavy''))"
    unfolding a1 by (simp add: heavy_def)
  have wf: "\<forall>ir\<in>set ?irs. truthy (analysis_of env_one_failure ir) \<longrightarrow>
              conforming (analysis_of env_one_failure ir)"
    using cf a0 by simp
  from aggregation_rules [of env_one_failure 2 ?irs "[(''too heavy'', heavy)]" "[JStr ''negative'']"
      "aspects_of heavy" "[(JStr ''negative'', 1)]" "[]" "[JStr ''comfort'']"] h1 h2 h3 h4 wf cf a0
  show ?thesis by blast
qed

text \<open>
  C2 as stated fails at the empty object: its sentiment field is missing, so the
  specification counts the review under \<^verbatim>\<open>neutral\<close>, while the run of \<open>env_only_empty\<close>
  hands empty counts to the presentation.
\<close>

theorem empty_object_is_not_neutral:
  "shown_counts (run_analysis env_only_empty) = [[]] \<and>
   Counter (spec_sentiments env_only_empty (enumerate 0 [''hm''])) = Inr [(JStr ''neutral'', 1)]"
  by (simp add: env_only_empty_def run_defs spec_sentiments_def succeeded_def analysis_of_def
      sentiment_of_def)


subsection \<open>C3: releasing the connection\<close>

text \<open>
  C3 asks that the connection to the store is released on every path of both programs.
  Evaluated where the store has no table \<^verbatim>\<open>reviews\<close>: the pipeline opens the
  connection, the query raises, and the run ends with the status of the handler and the
  re-enabling of the button, without closing the connection (\<^verbatim>\<open>conn.close()\<close> comes
  after the query, inside the \<^verbatim>\<open>try\<close>). The viewer, on the same store, closes it in its
  \<^verbatim>\<open>finally\<close> clause.
\<close>

theorem query_failure_leaves_connection_open:
  "run_analysis env_missing_table =
     [update_status ''Connecting to database 'feedback.db'...'',
      DbConnect,
      update_status (''Database Error: no such table: reviews'' @
                     ''. Check 'feedback.db', table 'reviews', or column 'review_text'.''),
      Post EnableButton] \<and>
   fst (load_feedback (store env_missing_table)) =
     [DbConnect,
      ShowError ''Database Error''
        (''An error occurred: no such table: reviews'' @ nl @ nl @
         ''Could not read table 'reviews'.''),
      DbClose]"
  by (simp add: env_missing_table_def run_analysis_def run_body_def prepend_def
      load_feedback_def viewer_handler_def)


subsection \<open>C4: a store without rows\<close>

text \<open>
  C4, as the code has it. When the store opens and the query returns no rows, the pipeline
  closes the connection, posts the status text
  \<^verbatim>\<open>Error: No reviews found in 'feedback.db'.\<close> and the re-enabling of the button, and
  nothing else: no request to the service, no status of an exception handler. The button
  ends enabled. The viewer shows the information box \<^verbatim>\<open>No data found in the table.\<close>
\<close>

theorem empty_store_run:
  assumes "store \<E> = Present (Inr [])"
  shows "run_analysis \<E> =
     [update_status ''Connecting to database 'feedback.db'...'',
      DbConnect,
      DbClose,
      update_status ''Error: No reviews found in 'feedback.db'.'',
      Post EnableButton,
      Post EnableButton] \<and>
   filter is_service_call (run_analysis \<E>) = [] \<and>
   button_state (last (press_analyze \<E> u)) = Normal \<and>
   load_feedback (store \<E>) =
     ([DbConnect, ShowInfo ''Info'' ''No data found in the table.'', DbClose], [], None)"
  using assms
  by (simp add: run_analysis_def run_body_def prepend_def update_status_def load_feedback_def
      press_analyze_def)

text \<open>
  The theorem at the store of \<open>env_no_rows\<close>.
\<close>

theorem empty_store_run_witness:
  "store env_no_rows = Present (Inr []) \<and>
   filter is_service_call (run_analysis env_no_rows) = [] \<and>
   button_state (last (press_analyze env_no_rows initial_ui)) = Normal"
proof -
  have h: "store env_no_rows = Present (Inr [])" by (simp add: env_no_rows_def)
  from empty_store_run [OF h, of initial_ui] h show ?thesis by (simp add: update_status_def)
qed

text \<open>
  C4 as stated fails for the pipeline: the notice it shows for an empty store announces
  an error.
\<close>

theorem no_reviews_notice_says_error:
  "notices (run_analysis env_no_rows) =
     [''Connecting to database 'feedback.db'...'', ''Error: No reviews found in 'feedback.db'.''] \<and>
   map announces_error (notices (run_analysis env_no_rows)) = [False, True]"
  by (simp add: env_no_rows_def run_analysis_def run_body_def prepend_def update_status_def
      announces_error_def)


subsection \<open>C5: the button is enabled again\<close>





subsection \<open>C6: the summary step never raises\<close>

text \<open>
  C6. \<^verbatim>\<open>get_final_summary\<close> always returns a text: the content of the reply when the
  request succeeds, and \<^verbatim>\<open>Error generating final summary:\<close> followed by the text of the
  exception when it fails. So once the prompt is built, \<^verbatim>\<open>run_analysis\<close> hands the
  results with a summary text to \<^verbatim>\<open>populate_gui\<close>, whatever the service answers.
\<close>

theorem summary_never_raises:
  "(\<exists>s. snd (get_final_summary \<E> p) = Inr s) \<and>
   (chat_text \<E> p = Inr content \<longrightarrow> get_final_summary \<E> p = ([SummaryCall p], Inr content)) \<and>
   (chat_text \<E> p = Inl e \<longrightarrow>
      get_final_summary \<E> p =
        ([SummaryCall p], Inr (''Error generating final summary: '' @ exc_str e))) \<and>
   (Counter sents = Inr counts \<and>
    aspect_words ''positive'' asps = Inr pos \<and>
    aspect_words ''negative'' asps = Inr neg \<and>
    create_summary_prompt counts pos neg = Inr p \<longrightarrow>
      (\<exists>s. process_results \<E> n (res, sents, asps) =
         ([update_status ''All reviews analyzed. Processing results...'',
           update_status ''Generating final summary and recommendations...'',
           SummaryCall p,
           Post (PopulateGui s counts pos neg res),
           update_status (''Analysis complete! Processed '' @ show_nat n @ '' reviews.'')],
          Inr ())))"
  by (auto simp: get_final_summary_def process_results_def prepend_def split: sum.splits)

text \<open>
  The theorem at a failing and at a succeeding summary request.
\<close>

theorem summary_never_raises_witness:
  "chat_text env_summary_fails empty_prompt = Inl (ServiceError ''rate limit'') \<and>
   get_final_summary env_summary_fails empty_prompt =
     ([SummaryCall empty_prompt], Inr (''Error generating final summary: '' @ ''rate limit'')) \<and>
   chat_text env_all_fail empty_prompt = Inr ''nothing to report'' \<and>
   get_final_summary env_all_fail empty_prompt =
     ([SummaryCall empty_prompt], Inr ''nothing to report'') \<and>
   Counter [] = Inr [] \<and>
   aspect_words ''positive'' [] = Inr [] \<and>
   aspect_words ''negative'' [] = Inr [] \<and>
   create_summary_prompt [] [] [] = Inr empty_prompt \<and>
   process_results env_summary_fails 1 ([], [], []) =
     ([update_status ''All reviews analyzed. Processing results...'',
       update_status ''Generating final summary and recommendations...'',
       SummaryCall empty_prompt,
       Post (PopulateGui (''Error generating final summary: '' @ ''rate limit'') [] [] [] []),
       update_status (''Analysis complete! Processed '' @ show_nat 1 @ '' reviews.'')],
      Inr ())"
proof -
  have h1: "chat_text env_summary_fails empty_prompt = Inl (ServiceError ''rate limit'')"
    by (simp add: env_summary_fails_def)
  have h2: "chat_text env_all_fail empty_prompt = Inr ''nothing to report''"
    by (simp add: env_all_fail_def)
  have h3: "Counter [] = Inr []" by (simp add: Counter_def)
  have h4: "aspect_words ''positive'' [] = Inr []" "aspect_words ''negative'' [] = Inr []"
    by simp_all
  have h5: "create_summary_prompt [] [] [] = Inr empty_prompt"
    by (simp add: create_summary_prompt_def Counter_def most_common_def empty_prompt_def)
  from summary_never_raises [of env_summary_fails empty_prompt "''x''" "ServiceError ''rate limit''" "[]" "[]" "[]" "[]" "[]"
      1 "[]"] h1 h3 h4 h5
  have a: "get_final_summary env_summary_fails empty_prompt =
     ([SummaryCall empty_prompt], Inr (''Error generating final summary: '' @ ''rate limit''))"
    by simp
  from summary_never_raises [of env_all_fail empty_prompt "''nothing to report''" "ServiceError ''x''" "[]" "[]" "[]" "[]" "[]"
      1 "[]"] h2
  have b: "get_final_summary env_all_fail empty_prompt =
     ([SummaryCall empty_prompt], Inr ''nothing to report'')"
    by simp
  have c: "process_results env_summary_fails 1 ([], [], []) =
     ([update_status ''All reviews analyzed. Processing results...'',
       update_status ''Generating final summary and recommendations...'',
       SummaryCall empty_prompt,
       Post (PopulateGui (''Error generating final summary: '' @ ''rate limit'') [] [] [] []),
       update_status (''Analysis complete! Processed '' @ show_nat 1 @ '' reviews.'')],
      Inr ())"
    by (simp add: process_results_def h3 h5 prepend_def a)
  from a b c h1 h2 h3 h4 h5 show ?thesis by blast
qed


subsection \<open>C7: a failing review is skipped\<close>

text \<open>
  C7. \<^verbatim>\<open>analyze_single_review\<close> never raises and sends exactly one request; the loop sends
  the requests for the reviews in order, none twice. When the request or the parsing
  fails, the function logs the failure and returns absent, and the loop goes on with the
  rest of the batch, its accumulators unchanged.
\<close>

theorem failed_review_is_skipped:
  "(\<exists>v. snd (analyze_single_review \<E> i r) = Inr v) \<and>
   analyze_calls (fst (analyze_single_review \<E> i r)) = [r] \<and>
   (\<exists>k. analyze_calls (fst (analysis_loop \<E> n irs a)) = take k (map snd irs)) \<and>
   (chat_json \<E> i r = Inl e \<longrightarrow>
      analyze_single_review \<E> i r =
        ([AnalyzeCall r, Print (''Error analyzing review: '' @ exc_str e)], Inr JNull) \<and>
      analysis_loop \<E> n ((i, r) # rest) a =
        prepend
          [update_status (''Analyzing review '' @ show_nat (i + 1) @ '' of '' @ show_nat n @ ''...''),
           AnalyzeCall r, Print (''Error analyzing review: '' @ exc_str e)]
          (analysis_loop \<E> n rest a))"
proof -
  have 1: "\<exists>v. snd (analyze_single_review \<E> i r) = Inr v"
    by (simp add: analyze_single_review_def split: sum.splits)
  have 2: "analyze_calls (fst (analyze_single_review \<E> i r)) = [r]"
    by (simp add: analyze_single_review_def split: sum.splits)
  have 3: "\<exists>k. analyze_calls (fst (analysis_loop \<E> n irs a)) = take k (map snd irs)"
    using analyze_calls_loop [of \<E> n irs a] by blast
  have 4: "chat_json \<E> i r = Inl e \<longrightarrow>
      analyze_single_review \<E> i r =
        ([AnalyzeCall r, Print (''Error analyzing review: '' @ exc_str e)], Inr JNull) \<and>
      analysis_loop \<E> n ((i, r) # rest) a =
        prepend
          [update_status (''Analyzing review '' @ show_nat (i + 1) @ '' of '' @ show_nat n @ ''...''),
           AnalyzeCall r, Print (''Error analyzing review: '' @ exc_str e)]
          (analysis_loop \<E> n rest a)"
    by (cases "analysis_loop \<E> n rest a")
       (auto simp: analyze_single_review_def loop_body_def prepend_def absorb_def
             split: sum.splits prod.splits)
  from 1 2 3 4 show ?thesis by blast
qed

text \<open>The theorem at the first review of \<open>env_one_failure\<close>, whose request times out.\<close>

theorem failed_review_is_skipped_witness:
  "chat_json env_one_failure 0 ''love it'' = Inl (ServiceError ''timeout'') \<and>
   analyze_single_review env_one_failure 0 ''love it'' =
     ([AnalyzeCall ''love it'', Print (''Error analyzing review: '' @ ''timeout'')], Inr JNull) \<and>
   analysis_loop env_one_failure 2 [(0, ''love it''), (1, ''too heavy'')] ([], [], []) =
     prepend
       [update_status (''Analyzing review '' @ show_nat (0 + 1) @ '' of '' @ show_nat 2 @ ''...''),
        AnalyzeCall ''love it'', Print (''Error analyzing review: '' @ ''timeout'')]
       (analysis_loop env_one_failure 2 [(1, ''too heavy'')] ([], [], []))"
proof -
  have h: "chat_json env_one_failure 0 ''love it'' = Inl (ServiceError ''timeout'')"
    by (simp add: env_one_failure_def)
  from failed_review_is_skipped [of env_one_failure 0 "''love it''" 2 "[]" "([], [], [])"
      "ServiceError ''timeout''" "[(1, ''too heavy'')]"] h
  show ?thesis by simp
qed


subsection \<open>C8: the raw listing\<close>

text \<open>
  C8, as the code has it. After a run that reaches \<^verbatim>\<open>populate_gui\<close>, and when
  \<^verbatim>\<open>populate_gui\<close> does not raise, the raw listing holds one entry for every review
  whose analysis passed \<^verbatim>\<open>if analysis:\<close>, in the order of the rows and numbered from one;
  a review whose analysis is absent or empty has no entry. An entry is the header with the
  number, the text of the review, the line \<^verbatim>\<open>Sentiment:\<close> with the sentiment of the
  analysis (\<^verbatim>\<open>N/A\<close> when the field is missing, where the aggregation counts
  \<^verbatim>\<open>neutral\<close>), the line \<^verbatim>\<open>Aspects:\<close>, one line with feature and sentiment for each
  aspect, and a blank line.
\<close>

theorem raw_listing_shows_kept_reviews:
  assumes st: "store \<E> = Present (Inr rows)"
      and pg: "Post (PopulateGui s c p q res) \<in> set (run_analysis \<E>)"
      and ok: "snd (populate_gui \<E> u s c p q res) = None"
  shows "res = map (\<lambda>ir. (snd ir, analysis_of \<E> ir)) (kept \<E> (enumerate 0 (map snd rows))) \<and>
         tab_all_reviews (last (press_analyze \<E> u)) =
           concat (map (\<lambda>ira.
               [(''--- REVIEW '' @ show_nat (fst ira + 1) @ '' ---'' @ nl, [''h1'']),
                (fst (snd ira) @ nl @ nl, []),
                (''Sentiment: '' @ py_str \<E> (field (snd (snd ira)) ''sentiment'' (JStr ''N/A'')) @ nl,
                 [''bold'']),
                (''Aspects:'' @ nl, [])] @
               map (\<lambda>a. (''  - '' @ py_str \<E> (field a ''feature'' JNull) @ '': '' @
                          py_str \<E> (field a ''sentiment'' JNull) @ nl, []))
                 (aspects_of (snd (snd ira))) @
               [(nl @ nl, [])])
             (enumerate 0 res))"
proof -
  from run_posted_populate [OF st pg] obtain pre sents asps m where
    e: "posted (run_analysis \<E>) = pre @ [PopulateGui s c p q res, SetStatus m, EnableButton]"
    and sp: "list_all is_status pre"
    and l: "snd (analysis_loop \<E> (length rows) (enumerate 0 (map snd rows)) ([], [], []))
              = Inr (res, sents, asps)" by blast
  from analysis_loop_Inr [OF l]
  have r: "res = map (\<lambda>ir. (snd ir, analysis_of \<E> ir)) (kept \<E> (enumerate 0 (map snd rows)))"
    by simp
  let ?u1 = "foldl (apply_callback \<E>) (start_analysis_thread u) pre"
  let ?entry = "\<lambda>ira.
               [(''--- REVIEW '' @ show_nat (fst ira + 1) @ '' ---'' @ nl, [''h1'']),
                (fst (snd ira) @ nl @ nl, []),
                (''Sentiment: '' @ py_str \<E> (field (snd (snd ira)) ''sentiment'' (JStr ''N/A'')) @ nl,
                 [''bold'']),
                (''Aspects:'' @ nl, [])] @
               map (\<lambda>a. (''  - '' @ py_str \<E> (field a ''feature'' JNull) @ '': '' @
                          py_str \<E> (field a ''sentiment'' JNull) @ nl, []))
                 (aspects_of (snd (snd ira))) @
               [(nl @ nl, [])]"
  have ok1: "snd (populate_gui \<E> ?u1 s c p q res) = None"
    using ok snd_populate_gui [of \<E> ?u1 s c p q res u] by simp
  note pn = populate_gui_None [OF ok1]
  have ln: "snd (listing \<E> (enumerate 0 res)) = None" using pn by simp
  have each: "\<forall>x\<in>set (enumerate 0 res). fst (review_entry \<E> (fst x) (snd x)) = ?entry x"
  proof
    fix x assume x: "x \<in> set (enumerate 0 res)"
    obtain i r v where xe: "x = (i, r, v)" by (cases x) auto
    from listing_None_all [OF ln] x xe have "snd (review_entry \<E> i (r, v)) = None" by auto
    from review_entry_None [OF this] xe
    show "fst (review_entry \<E> (fst x) (snd x)) = ?entry x" by simp
  qed
  have "tab_all_reviews (last (press_analyze \<E> u)) =
        tab_all_reviews (fst (populate_gui \<E> ?u1 s c p q res))"
    by (simp add: press_analyze_def last_ui_states e)
  also have "\<dots> = fst (listing \<E> (enumerate 0 res))"
    using pn by simp
  also have "\<dots> = concat (map (\<lambda>ira. fst (review_entry \<E> (fst ira) (snd ira))) (enumerate 0 res))"
    using ln listing_None by simp
  also have "\<dots> = concat (map ?entry (enumerate 0 res))"
    using each by (simp cong: map_cong)
  finally show ?thesis using r by simp
qed

text \<open>
  The theorem at the run of \<open>env_three\<close>: the first and the third review are listed, as
  reviews 1 and 2, the second of them with the sentiment \<^verbatim>\<open>N/A\<close>.
\<close>

theorem raw_listing_shows_kept_reviews_witness:
  "store env_three = Present (Inr [(1, ''too heavy''), (2, ''love it''), (3, ''so light'')]) \<and>
   Post (PopulateGui ''fine'' [(JStr ''negative'', 1), (JStr ''neutral'', 1)] [JStr ''weight'']
           [JStr ''comfort''] [(''too heavy'', heavy), (''so light'', light)])
     \<in> set (run_analysis env_three) \<and>
   snd (populate_gui env_three initial_ui ''fine'' [(JStr ''negative'', 1), (JStr ''neutral'', 1)]
          [JStr ''weight''] [JStr ''comfort''] [(''too heavy'', heavy), (''so light'', light)]) = None \<and>
   tab_all_reviews (last (press_analyze env_three initial_ui)) =
     [(''--- REVIEW 1 ---'' @ nl, [''h1'']),
      (''too heavy'' @ nl @ nl, []),
      (''Sentiment: negative'' @ nl, [''bold'']),
      (''Aspects:'' @ nl, []),
      (''  - comfort: negative'' @ nl, []),
      (nl @ nl, []),
      (''--- REVIEW 2 ---'' @ nl, [''h1'']),
      (''so light'' @ nl @ nl, []),
      (''Sentiment: N/A'' @ nl, [''bold'']),
      (''Aspects:'' @ nl, []),
      (''  - weight: positive'' @ nl, []),
      (nl @ nl, [])]"
proof -
  have h1: "store env_three = Present (Inr [(1, ''too heavy''), (2, ''love it''), (3, ''so light'')])"
    by (simp add: env_three_def)
  have h2: "Post (PopulateGui ''fine'' [(JStr ''negative'', 1), (JStr ''neutral'', 1)] [JStr ''weight'']
           [JStr ''comfort''] [(''too heavy'', heavy), (''so light'', light)])
     \<in> set (run_analysis env_three)"
    by (simp add: env_three_def run_defs heavy_def light_def key_eq_def)
  have h3: "snd (populate_gui env_three initial_ui ''fine'' [(JStr ''negative'', 1), (JStr ''neutral'', 1)]
          [JStr ''weight''] [JStr ''comfort''] [(''too heavy'', heavy), (''so light'', light)]) = None"
    by (simp add: env_three_def gui_defs heavy_def light_def)
  from raw_listing_shows_kept_reviews [OF h1 h2 h3]
  have "tab_all_reviews (last (press_analyze env_three initial_ui)) =
     [(''--- REVIEW 1 ---'' @ nl, [''h1'']),
      (''too heavy'' @ nl @ nl, []),
      (''Sentiment: negative'' @ nl, [''bold'']),
      (''Aspects:'' @ nl, []),
      (''  - comfort: negative'' @ nl, []),
      (nl @ nl, []),
      (''--- REVIEW 2 ---'' @ nl, [''h1'']),
      (''so light'' @ nl @ nl, []),
      (''Sentiment: N/A'' @ nl, [''bold'']),
      (''Aspects:'' @ nl, []),
      (''  - weight: positive'' @ nl, []),
      (nl @ nl, [])]"
    by (simp add: field_def aspects_of_def heavy_def light_def show_nat.simps)
  with h1 h2 h3 show ?thesis by blast
qed

text \<open>
  C8 as stated fails as soon as one analysis is absent: of the two reviews loaded in the
  run of \<open>env_one_failure\<close> the listing shows the second alone, as review 1.
\<close>

theorem failed_review_missing_from_listing:
  "store env_one_failure = Present (Inr [(1, ''love it''), (2, ''too heavy'')]) \<and>
   tab_all_reviews (last (press_analyze env_one_failure initial_ui)) =
     [(''--- REVIEW 1 ---'' @ nl, [''h1'']),
      (''too heavy'' @ nl @ nl, []),
      (''Sentiment: negative'' @ nl, [''bold'']),
      (''Aspects:'' @ nl, []),
      (''  - comfort: negative'' @ nl, []),
      (nl @ nl, [])]"
  by (simp add: env_one_failure_def run_defs gui_defs heavy_def key_eq_def show_nat.simps)


subsection \<open>C9: no store file\<close>

text \<open>
  C9, as the code has it. When the file of the store is absent, \<^verbatim>\<open>sqlite3.connect\<close>
  creates it, the query finds no table, and the pipeline posts the status
  \<^verbatim>\<open>Database Error: no such table: reviews. Check ...\<close> and the re-enabling of the
  button; it sends no request to the service and the button ends enabled. The notice
  \<^verbatim>\<open>Database file not found\<close> is the viewer's, which tests for the file first.
\<close>

theorem absent_store_run:
  assumes "store \<E> = Absent"
  shows "run_analysis \<E> =
     [update_status ''Connecting to database 'feedback.db'...'',
      DbConnect,
      update_status (''Database Error: no such table: reviews'' @
                     ''. Check 'feedback.db', table 'reviews', or column 'review_text'.''),
      Post EnableButton] \<and>
   filter is_service_call (run_analysis \<E>) = [] \<and>
   button_state (last (press_analyze \<E> u)) = Normal \<and>
   load_feedback (store \<E>) =
     ([ShowError ''Error''
         (''Database file not found: feedback.db'' @ nl @
          ''Please place it in the same folder as the script.'')], [], None)"
  using assms
  by (simp add: run_analysis_def run_body_def prepend_def update_status_def load_feedback_def
      press_analyze_def)

text \<open>
  The theorem at \<open>env_absent\<close>.
\<close>

theorem absent_store_run_witness:
  "store env_absent = Absent \<and>
   filter is_service_call (run_analysis env_absent) = [] \<and>
   button_state (last (press_analyze env_absent initial_ui)) = Normal"
proof -
  have h: "store env_absent = Absent" by (simp add: env_absent_def)
  from absent_store_run [OF h, of initial_ui] h show ?thesis by (simp add: update_status_def)
qed

text \<open>
  C9 as stated fails for the pipeline: with no store file, the notices of the run are the
  two status texts below, and \<^verbatim>\<open>Database file not found\<close> is not among them.
\<close>

theorem absent_store_reports_database_error:
  "notices (run_analysis env_absent) =
     [''Connecting to database 'feedback.db'...'',
      ''Database Error: no such table: reviews'' @
      ''. Check 'feedback.db', table 'reviews', or column 'review_text'.'']"
  by (simp add: env_absent_def run_analysis_def run_body_def prepend_def update_status_def)


subsection \<open>C10: every analysis absent\<close>

text \<open>
  C10. When the store has rows and every analysis is absent, the body of
  \<^verbatim>\<open>run_analysis\<close> ends without an exception: the summary is requested with the prompt
  built from no counts and no words, and \<^verbatim>\<open>populate_gui\<close> is called with empty counts,
  empty word lists and no results. Afterwards the summary tab holds the summary, both
  word tabs hold the label \<^verbatim>\<open>No ... aspects found.\<close> and no word cloud, and the raw
  listing is empty. \<^verbatim>\<open>draw_word_cloud\<close> on an empty list never calls the word cloud
  library.
\<close>

theorem all_absent_still_presented:
  assumes st: "store \<E> = Present (Inr rows)"
      and ne: "rows \<noteq> []"
      and ab: "\<forall>ir\<in>set (enumerate 0 (map snd rows)). analysis_of \<E> ir = JNull"
  shows "snd (run_body \<E>) = Inr () \<and>
         SummaryCall empty_prompt \<in> set (run_analysis \<E>) \<and>
         (\<exists>s. Post (PopulateGui s [] [] [] []) \<in> set (run_analysis \<E>) \<and>
              tab_summary (last (press_analyze \<E> u)) = s) \<and>
         tab_sentiment (last (press_analyze \<E> u)) = [ChartCanvas [] [] []] \<and>
         tab_pos_aspects (last (press_analyze \<E> u)) = [Label ''No positive aspects found.''] \<and>
         tab_neg_aspects (last (press_analyze \<E> u)) = [Label ''No negative aspects found.''] \<and>
         tab_all_reviews (last (press_analyze \<E> u)) = [] \<and>
         draw_word_cloud \<E> [] title = ([Label (''No '' @ lower title @ '' found.'')], None)"
proof -
  let ?loop = "analysis_loop \<E> (length rows) (enumerate 0 (map snd rows)) ([], [], [])"
  from ab have f: "\<forall>ir\<in>set (enumerate 0 (map snd rows)). \<not> truthy (analysis_of \<E> ir)" by simp
  obtain es where l: "?loop = (es, Inr ([], [], []))"
    using loop_all_falsy [OF f, of "length rows" "([], [], [])"] by (cases ?loop) simp
  obtain s where p: "process_results \<E> (length rows) ([], [], []) =
     ([update_status ''All reviews analyzed. Processing results...'',
       update_status ''Generating final summary and recommendations...'',
       SummaryCall empty_prompt,
       Post (PopulateGui s [] [] [] []),
       update_status (''Analysis complete! Processed '' @ show_nat (length rows) @ '' reviews.'')],
      Inr ())"
    using process_results_empty by blast
  have rb: "run_body \<E> =
        ([update_status ''Connecting to database 'feedback.db'...'', DbConnect, DbClose,
          update_status (''Loaded '' @ show_nat (length rows) @ '' reviews.'')] @ es @
         [update_status ''All reviews analyzed. Processing results...'',
          update_status ''Generating final summary and recommendations...'',
          SummaryCall empty_prompt,
          Post (PopulateGui s [] [] [] []),
          update_status (''Analysis complete! Processed '' @ show_nat (length rows) @ '' reviews.'')],
         Inr ())"
    using st ne l p by (simp add: run_body_def prepend_def)
  have 1: "snd (run_body \<E>) = Inr ()" by (simp add: rb)
  have 2: "SummaryCall empty_prompt \<in> set (run_analysis \<E>)" by (simp add: run_analysis_def rb)
  have 3: "Post (PopulateGui s [] [] [] []) \<in> set (run_analysis \<E>)" by (simp add: run_analysis_def rb)
  have sl: "list_all is_status (posted es)"
    using posted_loop [of \<E> "length rows" "enumerate 0 (map snd rows)" "([], [], [])"] l by simp
  have po: "posted (run_analysis \<E>) =
     ([SetStatus ''Connecting to database 'feedback.db'...'',
       SetStatus (''Loaded '' @ show_nat (length rows) @ '' reviews.'')] @ posted es @
      [SetStatus ''All reviews analyzed. Processing results...'',
       SetStatus ''Generating final summary and recommendations...'']) @
     PopulateGui s [] [] [] [] #
     [SetStatus (''Analysis complete! Processed '' @ show_nat (length rows) @ '' reviews.''),
      EnableButton]"
    by (simp add: run_analysis_def rb update_status_def posted_append)
  let ?u1 = "foldl (apply_callback \<E>) (start_analysis_thread u)
     ([SetStatus ''Connecting to database 'feedback.db'...'',
       SetStatus (''Loaded '' @ show_nat (length rows) @ '' reviews.'')] @ posted es @
      [SetStatus ''All reviews analyzed. Processing results...'',
       SetStatus ''Generating final summary and recommendations...''])"
  let ?u2 = "fst (populate_gui \<E> ?u1 s [] [] [] [])"
  have fin: "last (press_analyze \<E> u) =
     foldl (apply_callback \<E>) ?u2
       [SetStatus (''Analysis complete! Processed '' @ show_nat (length rows) @ '' reviews.''),
        EnableButton]"
    unfolding press_analyze_def last_ui_states po foldl_append by simp
  have t: "tab_summary (last (press_analyze \<E> u)) = tab_summary ?u2 \<and>
           tab_sentiment (last (press_analyze \<E> u)) = tab_sentiment ?u2 \<and>
           tab_pos_aspects (last (press_analyze \<E> u)) = tab_pos_aspects ?u2 \<and>
           tab_neg_aspects (last (press_analyze \<E> u)) = tab_neg_aspects ?u2 \<and>
           tab_all_reviews (last (press_analyze \<E> u)) = tab_all_reviews ?u2"
    unfolding fin by (rule tabs_foldl) simp
  have 4: "tab_summary (last (press_analyze \<E> u)) = s"
    and 5: "tab_sentiment (last (press_analyze \<E> u)) = [ChartCanvas [] [] []]"
    and 6: "tab_pos_aspects (last (press_analyze \<E> u)) = [Label ''No positive aspects found.'']"
    and 7: "tab_neg_aspects (last (press_analyze \<E> u)) = [Label ''No negative aspects found.'']"
    and 8: "tab_all_reviews (last (press_analyze \<E> u)) = []"
    using t by (simp_all add: populate_gui_empty)
  have 9: "draw_word_cloud \<E> [] title = ([Label (''No '' @ lower title @ '' found.'')], None)"
    by (simp add: draw_word_cloud_def)
  from 1 2 3 4 5 6 7 8 9 show ?thesis by blast
qed

text \<open>
  The theorem at the run of \<open>env_all_fail\<close>.
\<close>

theorem all_absent_still_presented_witness:
  "store env_all_fail = Present (Inr [(1, ''too dear''), (2, ''too heavy'')]) \<and>
   analysis_of env_all_fail (0, ''too dear'') = JNull \<and>
   analysis_of env_all_fail (1, ''too heavy'') = JNull \<and>
   snd (run_body env_all_fail) = Inr () \<and>
   SummaryCall empty_prompt \<in> set (run_analysis env_all_fail) \<and>
   tab_pos_aspects (last (press_analyze env_all_fail initial_ui)) =
     [Label ''No positive aspects found.''] \<and>
   tab_neg_aspects (last (press_analyze env_all_fail initial_ui)) =
     [Label ''No negative aspects found.'']"
proof -
  have h1: "store env_all_fail = Present (Inr [(1, ''too dear''), (2, ''too heavy'')])"
    by (simp add: env_all_fail_def)
  have h2: "[(1::int, ''too dear''), (2, ''too heavy'')] \<noteq> []" by simp
  have a0: "analysis_of env_all_fail (0, ''too dear'') = JNull"
    by (simp add: env_all_fail_def analysis_of_def analyze_single_review_def)
  have a1: "analysis_of env_all_fail (1, ''too heavy'') = JNull"
    by (simp add: env_all_fail_def analysis_of_def analyze_single_review_def)
  have h3: "\<forall>ir\<in>set (enumerate 0 (map snd [(1::int, ''too dear''), (2, ''too heavy'')])).
              analysis_of env_all_fail ir = JNull"
    using a0 a1 by simp
  from all_absent_still_presented [OF h1 h2 h3, of initial_ui] h1 a0 a1 show ?thesis by blast
qed


end
